theory Spec2Isabelle
  imports Main "HOL-Library.Sublist" "HOL-Library.Multiset"
begin

section \<open>Errors, readers and the multierror group\<close>

text \<open>
  Go's \<open>error\<close> values that the handlers of \<open>cmd/PrepareFFISEmail\<close> create or pass on.
  \<open>New msg\<close> is \<open>errors.New(msg)\<close> and also stands for an error value produced by a
  library or by the storage client (identified by its message); \<open>Wrapped msg err\<close> is
  the value \<open>log.Errorf(logger, msg, err)\<close> returns. No value of this type is a
  \<open>*multierror.Error\<close>: neither net/mail, io nor the S3 client produce one, so
  \<open>multierror.Append\<close> below never takes its flattening branch.
\<close>

datatype error = New string | Wrapped string error

text \<open>
  Modelled from the spec: \<open>log.Errorf\<close> of the repository's \<open>internal/log\<close> package, which is
  not among the sources. It logs the message with the error and returns an error that
  carries both the message (the test of processEmail looks for the message in the
  returned error's text) and the original error. Logging itself has no effect on the
  results and is not modelled.
\<close>

definition Errorf :: "string \<Rightarrow> error \<Rightarrow> error" where
  "Errorf msg err = Wrapped msg err"

text \<open>\<open>context.Canceled\<close>, which Go declares as \<open>errors.New("context canceled")\<close>.\<close>

definition context_Canceled :: error where
  "context_Canceled = New ''context canceled''"


text \<open>
  An \<open>io.Reader\<close>: the bytes not yet consumed, the error the stream reports when they
  are exhausted (\<open>None\<close> for a clean \<open>io.EOF\<close>), and whether the value is an
  \<open>io.Seeker\<close> as well (a \<open>*bytes.Reader\<close> is, the body of an HTTP response is not).
  A Go string is a byte sequence and \<open>string(b)\<close> copies the bytes, so \<open>string\<close>
  serves for both.
\<close>

record Reader =
  unread :: string
  failure :: "error option"
  seeker :: bool

text \<open>\<open>bytes.NewReader(b)\<close>.\<close>

definition NewReader :: "string \<Rightarrow> Reader" where
  "NewReader b = \<lparr>unread = b, failure = None, seeker = True\<rparr>"

text \<open>
  \<open>io.ReadAll(r)\<close>: returns everything up to the end of the stream together with the
  stream's error, if any; the reader is a reference, so the caller's \<open>r\<close> is left
  drained. The third component is that state of \<open>r\<close> after the call.
\<close>

definition ReadAll :: "Reader \<Rightarrow> string \<times> error option \<times> Reader" where
  "ReadAll r = (unread r, failure r, r\<lparr>unread := []\<rparr>)"

text \<open>\<open>multierror.Error\<close>, \<open>multierror.Append\<close> for a plain error, \<open>ErrorOrNil\<close> and \<open>Len\<close>.
  A \<open>*multierror.Error\<close> that may be nil is an option.\<close>

record multierror_Error =
  Errors :: "error list"

definition Append :: "multierror_Error option \<Rightarrow> error \<Rightarrow> multierror_Error option" where
  "Append err e =
     (case err of
        None \<Rightarrow> Some \<lparr>Errors = [e]\<rparr>
      | Some m \<Rightarrow> Some (m\<lparr>Errors := Errors m @ [e]\<rparr>))"

definition ErrorOrNil :: "multierror_Error option \<Rightarrow> multierror_Error option" where
  "ErrorOrNil e =
     (case e of
        None \<Rightarrow> None
      | Some m \<Rightarrow> if length (Errors m) = 0 then None else Some m)"

definition Len :: "multierror_Error option \<Rightarrow> nat" where
  "Len e = (case e of None \<Rightarrow> 0 | Some m \<Rightarrow> length (Errors m))"

section \<open>Library functions the handler uses\<close>

subsection \<open>strings.Contains\<close>

text \<open>\<open>strings.Index(s, substr)\<close>: the first position at which \<open>substr\<close> occurs in \<open>s\<close>,
  or \<open>-1\<close>; \<open>strings.Contains(s, substr)\<close> is \<open>Index(s, substr) >= 0\<close>.\<close>

fun Index :: "string \<Rightarrow> string \<Rightarrow> int" where
  "Index [] substr = (if substr = [] then 0 else - 1)"
| "Index (c # s) substr =
     (if prefix substr (c # s) then 0
      else (let i = Index s substr in if i < 0 then - 1 else i + 1))"

definition Contains :: "string \<Rightarrow> string \<Rightarrow> bool" where
  "Contains s substr = (Index s substr \<ge> 0)"

subsection \<open>fmt.Sprintf with the verb %d\<close>

text \<open>The decimal digits of a natural number, most significant first, without padding.\<close>

fun digits :: "nat \<Rightarrow> string" where
  "digits n =
     (if n < 10 then [''0123456789'' ! n]
      else digits (n div 10) @ [''0123456789'' ! (n mod 10)])"

declare digits.simps [simp del]

text \<open>\<open>%d\<close> applied to a Go \<open>int\<close> (or to a \<open>time.Month\<close>, whose underlying type is
  \<open>int\<close>; the verb \<open>%d\<close> does not call its \<open>String\<close> method).\<close>

definition fmt_d :: "int \<Rightarrow> string" where
  "fmt_d i = (if i < 0 then CHR ''-'' # digits (nat (- i)) else digits (nat i))"

text \<open>The value a string of decimal digits denotes; used to state what \<open>fmt_d\<close> renders.\<close>

definition digit_val :: "char \<Rightarrow> nat" where
  "digit_val c = of_char c - 48"

definition decimal_val :: "string \<Rightarrow> nat" where
  "decimal_val s = foldl (\<lambda>acc c. 10 * acc + digit_val c) 0 s"

subsection \<open>net/mail\<close>

text \<open>
  \<open>mail.Header\<close> is a map from canonical header names to the list of values;
  \<open>Get\<close> returns the first value of a name, or the empty string. The two names looked
  up by the handler, From and Date, are already in canonical form.
\<close>

type_synonym Header = "string \<rightharpoonup> string list"

definition Get :: "Header \<Rightarrow> string \<Rightarrow> string" where
  "Get h key = (case h key of None \<Rightarrow> [] | Some [] \<Rightarrow> [] | Some (v # _) \<Rightarrow> v)"

record Message =
  Header :: Header
  Body :: Reader

record mail_Address =
  Name :: string
  Address :: string

text \<open>A \<open>time.Time\<close>, seen through the three accessors the handler calls.\<close>

record Time =
  Year :: int
  Month :: int
  Day :: int

text \<open>
  The parsers of Go's net/mail are not part of the repository; the handler is modelled
  over any three functions of their types: \<open>mail.ReadMessage\<close> (applied to a reader over
  the given bytes), \<open>mail.ParseAddress\<close> and \<open>mail.ParseDate\<close>.
\<close>

record net_mail =
  ReadMessage :: "string \<Rightarrow> error + Message"
  ParseAddress :: "string \<Rightarrow> error + mail_Address"
  ParseDate :: "string \<Rightarrow> error + Time"

section \<open>The storage client\<close>

text \<open>A \<open>context.Context\<close>, seen through \<open>ctx.Err()\<close>.\<close>

record Context =
  Err :: "error option"

record GetObjectInput =
  Bucket :: "string option"
  Key :: "string option"

record GetObjectOutput =
  Body :: Reader

record PutObjectInput =
  Bucket :: "string option"
  Key :: "string option"
  Body :: Reader
  ServerSideEncryption :: string

definition ServerSideEncryptionAes256 :: string where
  "ServerSideEncryptionAes256 = ''AES256''"

text \<open>\<open>aws.String(s)\<close>: a pointer to a copy of \<open>s\<close>.\<close>

definition aws_String :: "string \<Rightarrow> string option" where
  "aws_String s = Some s"

text \<open>
  The client behind \<open>S3GetObjectAPI\<close> and \<open>S3PutObjectAPI\<close>. The storage service is
  an external collaborator: each call maps the service's state \<open>'w\<close> to a result and a
  new state. The \<open>PutObjectOutput\<close> is discarded by every caller and left out.
\<close>

record 'w S3Client =
  GetObject :: "Context \<Rightarrow> GetObjectInput \<Rightarrow> 'w \<Rightarrow> (error + GetObjectOutput) \<times> 'w"
  PutObject :: "Context \<Rightarrow> PutObjectInput \<Rightarrow> 'w \<Rightarrow> error option \<times> 'w"

text \<open>What a run does to the outside: the calls to the storage client, each put with
  its result, and the metrics sent.\<close>

datatype Event =
    GetObjectCall GetObjectInput
  | PutObjectCall PutObjectInput "error option"
  | Metric string int

section \<open>cmd/PrepareFFISEmail\<close>

text \<open>The two settings of the global \<open>env\<close> that the handler reads.\<close>

record Env =
  ValidFFISEmail :: string
  SourceDataBucket :: string

subsection \<open>s3.go\<close>

text \<open>\<open>UploadS3Object(ctx, c, bucket, key, b)\<close> of s3.go: one PutObject with the bytes
  wrapped by \<open>bytes.NewReader\<close>; returns the put's error.\<close>

definition UploadS3Object ::
  "Context \<Rightarrow> 'w S3Client \<Rightarrow> string \<Rightarrow> string \<Rightarrow> string \<Rightarrow> 'w \<Rightarrow> (error option \<times> Event list) \<times> 'w" where
  "UploadS3Object ctx c bucket key b w =
     (let input = \<lparr>Bucket = aws_String bucket, Key = aws_String key,
                   Body = NewReader b,
                   ServerSideEncryption = ServerSideEncryptionAes256\<rparr>;
          (err, w') = PutObject c ctx input w
      in ((err, [PutObjectCall input err]), w'))"

text \<open>
  Modelled from the spec: the streaming variant of \<open>UploadS3Object\<close>, which takes an
  \<open>io.Reader\<close>. handler.go calls it and s3_test.go exercises it (the reader handed in
  is the put's \<open>Body\<close>), but s3.go holds only the in-memory variant above. The spec
  gives both variants the same mechanism, so this is the definition above with the
  reader itself as the body.
\<close>

definition UploadS3Object_stream ::
  "Context \<Rightarrow> 'w S3Client \<Rightarrow> string \<Rightarrow> string \<Rightarrow> Reader \<Rightarrow> 'w \<Rightarrow> (error option \<times> Event list) \<times> 'w" where
  "UploadS3Object_stream ctx c bucket key r w =
     (let input = \<lparr>Bucket = aws_String bucket, Key = aws_String key,
                   Body = r,
                   ServerSideEncryption = ServerSideEncryptionAes256\<rparr>;
          (err, w') = PutObject c ctx input w
      in ((err, [PutObjectCall input err]), w'))"

subsection \<open>handler.go\<close>

text \<open>\<open>fmt.Sprintf("sources/%d/%d/%d/ffis/raw.eml", year, month, day)\<close>.\<close>

definition s3ObjectKey_of :: "Time \<Rightarrow> string" where
  "s3ObjectKey_of t =
     ''sources/'' @ fmt_d (Year t) @ ''/'' @ fmt_d (Month t) @ ''/'' @ fmt_d (Day t)
       @ ''/ffis/raw.eml''"

definition processHeader :: "net_mail \<Rightarrow> Header \<Rightarrow> error + (string \<times> string)" where
  "processHeader lib h =
     (case ParseAddress lib (Get h ''From'') of
        Inl err \<Rightarrow> Inl err
      | Inr mailFrom \<Rightarrow>
          (case ParseDate lib (Get h ''Date'') of
             Inl err \<Rightarrow> Inl err
           | Inr mailDateTime \<Rightarrow> Inr (Address mailFrom, s3ObjectKey_of mailDateTime)))"

definition processEmail ::
  "net_mail \<Rightarrow> Env \<Rightarrow> Context \<Rightarrow> 'w S3Client \<Rightarrow> Reader \<Rightarrow> 'w \<Rightarrow> (error option \<times> Event list) \<times> 'w" where
  "processEmail lib env ctx svc r w =
     (case ReadAll r of
        (b, Some err, r') \<Rightarrow> ((Some err, []), w)
      | (b, None, r') \<Rightarrow>
          (case ReadMessage lib b of
             Inl err \<Rightarrow> ((Some (Errorf ''Error parsing email data from S3'' err), []), w)
           | Inr email \<Rightarrow>
               (case processHeader lib (Header email) of
                  Inl err \<Rightarrow>
                    ((Some (Errorf ''Error extracting data from email header'' err), []), w)
                | Inr (address, s3ObjectKey) \<Rightarrow>
                    if \<not> Contains address (ValidFFISEmail env) then
                      ((Some (Errorf ''Origin email address does not match FFIS address''
                                (New ''Invalid email address'')), []), w)
                    else
                      (case UploadS3Object_stream ctx svc (SourceDataBucket env) s3ObjectKey r' w of
                         ((Some err, evs), w') \<Rightarrow>
                           ((Some (Errorf ''Error uploading S3 object to Grants source data bucket'' err),
                             evs), w')
                       | ((None, evs), w') \<Rightarrow>
                           ((None, evs @ [Metric ''email.moved'' 1]), w')))))"

text \<open>
  One notification of the S3 event. \<open>S3_Bucket_Name\<close> and \<open>S3_Object_Key\<close> are the
  fields \<open>record.S3.Bucket.Name\<close> and \<open>record.S3.Object.Key\<close>.
\<close>

record S3EventRecord =
  EventName :: string
  S3_Bucket_Name :: string
  S3_Object_Key :: string

record S3Event =
  Records :: "S3EventRecord list"

text \<open>The deferred function of a record task: a failure metric when the task's error
  is not nil.\<close>

definition deferred_metric :: "string \<Rightarrow> error option \<Rightarrow> Event list" where
  "deferred_metric name err = (if err \<noteq> None then [Metric name 1] else [])"

text \<open>
  The function handed to \<open>wg.Go\<close> for one record. The span's context is the
  invocation's context with tracing data added; tracing and logging are not modelled.
\<close>

definition handleRecord ::
  "net_mail \<Rightarrow> Env \<Rightarrow> 'w S3Client \<Rightarrow> Context \<Rightarrow> S3EventRecord \<Rightarrow> 'w
     \<Rightarrow> (error option \<times> Event list) \<times> 'w" where
  "handleRecord lib env s3svc ctx record w =
     (let sourceBucket = S3_Bucket_Name record;
          sourceKey = S3_Object_Key record;
          input = \<lparr>GetObjectInput.Bucket = aws_String sourceBucket,
                   GetObjectInput.Key = aws_String sourceKey\<rparr>
      in case GetObject s3svc ctx input w of
           (Inl err, w1) \<Rightarrow>
             ((Some err, GetObjectCall input # deferred_metric ''email.failed'' (Some err)), w1)
         | (Inr resp, w1) \<Rightarrow>
             (case processEmail lib env ctx s3svc (GetObjectOutput.Body resp) w1 of
                ((err, evs), w2) \<Rightarrow>
                  ((err, GetObjectCall input # evs @ deferred_metric ''email.failed'' err), w2)))"

text \<open>
  \<open>multierror.Group\<close>: \<open>wg.Go\<close> for every record, then \<open>wg.Wait()\<close>. Each task's
  non-nil error is appended to the group's error under the group's mutex. The tasks
  run concurrently in Go; here they run one after the other in the order of the
  records, the service's state passing from each to the next.
\<close>

fun Group_run ::
  "('r \<Rightarrow> 'w \<Rightarrow> (error option \<times> Event list) \<times> 'w) \<Rightarrow> 'r list \<Rightarrow> multierror_Error option \<Rightarrow> 'w
     \<Rightarrow> (multierror_Error option \<times> Event list) \<times> 'w" where
  "Group_run f [] g w = ((g, []), w)"
| "Group_run f (record # records) g w =
     (case f record w of
        ((err, evs), w1) \<Rightarrow>
          (case Group_run f records (case err of None \<Rightarrow> g | Some e \<Rightarrow> Append g e) w1 of
             ((g', evs'), w2) \<Rightarrow> ((g', evs @ evs'), w2)))"

definition handleS3EventWithConfig ::
  "net_mail \<Rightarrow> Env \<Rightarrow> 'w S3Client \<Rightarrow> Context \<Rightarrow> S3Event \<Rightarrow> 'w
     \<Rightarrow> (multierror_Error option \<times> Event list) \<times> 'w" where
  "handleS3EventWithConfig lib env s3svc ctx s3Event w =
     (case Group_run (handleRecord lib env s3svc ctx) (Records s3Event) None w of
        ((errs, evs), w') \<Rightarrow>
          (case ErrorOrNil errs of
             Some err \<Rightarrow> ((Some err, evs), w')
           | None \<Rightarrow> ((None, evs), w')))"

subsection \<open>The other revision of the handler (unnamed/part_000)\<close>

text \<open>This revision reads the object in the record task and hands the bytes to
  processEmail, which validates the sender before it parses the date.\<close>

definition processEmail_bytes ::
  "net_mail \<Rightarrow> Env \<Rightarrow> Context \<Rightarrow> 'w S3Client \<Rightarrow> string \<Rightarrow> 'w \<Rightarrow> (error option \<times> Event list) \<times> 'w" where
  "processEmail_bytes lib env ctx svc b w =
     (case ReadMessage lib b of
        Inl err \<Rightarrow> ((Some (Errorf ''Error parsing email data from S3'' err), []), w)
      | Inr email \<Rightarrow>
          (let header = Header email in
           case ParseAddress lib (Get header ''From'') of
             Inl err \<Rightarrow> ((Some (Errorf ''Error parsing email address'' err), []), w)
           | Inr mailFrom \<Rightarrow>
               (let mailDate = Get header ''Date'' in
                if \<not> Contains (Address mailFrom) (ValidFFISEmail env) then
                  ((Some (Errorf ''Origin email address does not match FFIS address''
                            (New ''Invalid email address'')), []), w)
                else
                  (case ParseDate lib mailDate of
                     Inl err \<Rightarrow>
                       ((Some (Errorf ''Error parsing date for S3 object key'' err), []), w)
                   | Inr mailDateTime \<Rightarrow>
                       (let s3ObjectKey = s3ObjectKey_of mailDateTime in
                        case UploadS3Object ctx svc (SourceDataBucket env) s3ObjectKey b w of
                          ((Some err, evs), w') \<Rightarrow>
                            ((Some (Errorf ''Error uploading prepared grant opportunity to DynamoDB'' err),
                              evs), w')
                        | ((None, evs), w') \<Rightarrow>
                            ((None, evs @ [Metric ''email.moved'' 1]), w'))))))"

definition handleRecord_bytes ::
  "net_mail \<Rightarrow> Env \<Rightarrow> 'w S3Client \<Rightarrow> Context \<Rightarrow> S3EventRecord \<Rightarrow> 'w
     \<Rightarrow> (error option \<times> Event list) \<times> 'w" where
  "handleRecord_bytes lib env s3svc ctx record w =
     (let sourceBucket = S3_Bucket_Name record;
          sourceKey = S3_Object_Key record;
          input = \<lparr>GetObjectInput.Bucket = aws_String sourceBucket,
                   GetObjectInput.Key = aws_String sourceKey\<rparr>
      in case GetObject s3svc ctx input w of
           (Inl err, w1) \<Rightarrow>
             ((Some err, GetObjectCall input # deferred_metric ''opportunity.failed'' (Some err)), w1)
         | (Inr resp, w1) \<Rightarrow>
             (case ReadAll (GetObjectOutput.Body resp) of
                (data, Some err, r') \<Rightarrow>
                  ((Some err, GetObjectCall input # deferred_metric ''opportunity.failed'' (Some err)), w1)
              | (data, None, r') \<Rightarrow>
                  (case processEmail_bytes lib env ctx s3svc data w1 of
                     ((err, evs), w2) \<Rightarrow>
                       ((err, GetObjectCall input # evs @ deferred_metric ''opportunity.failed'' err),
                        w2))))"

definition handleS3EventWithConfig_bytes ::
  "net_mail \<Rightarrow> Env \<Rightarrow> 'w S3Client \<Rightarrow> Context \<Rightarrow> S3Event \<Rightarrow> 'w
     \<Rightarrow> (multierror_Error option \<times> Event list) \<times> 'w" where
  "handleS3EventWithConfig_bytes lib env s3svc ctx s3Event w =
     (case Group_run (handleRecord_bytes lib env s3svc ctx) (Records s3Event) None w of
        ((errs, evs), w') \<Rightarrow>
          (case ErrorOrNil errs of
             Some err \<Rightarrow> ((Some err, evs), w')
           | None \<Rightarrow> ((None, evs), w')))"

section \<open>cmd/EnqueueFFISDownload\<close>

text \<open>
  Modelled from the spec: the handler of cmd/EnqueueFFISDownload, of which only the test
  is among the sources. The definitions follow section 4.5 of the specification (the
  URL extractor) and the queue interface of section 6; the three error values carry the
  names the test compares against.
\<close>

datatype url_error = ErrNoPlaintext | ErrNoMatchesFound | ErrMultipleFound | SendError error

text \<open>Modelled from the spec: a parsed message with its plaintext body part, if it has
  one, and its HTML part, if it has one.\<close>

record ParsedMessage =
  Headers :: Header
  TextPlain :: "string option"
  TextHTML :: "string option"

text \<open>
  Modelled from the spec: the extractor. \<open>findAll pattern text\<close> stands for the matches
  of the configured regular expression in the text, in order of occurrence; the
  regular-expression engine is a library and stays a parameter. Exactly one match
  must be found.
\<close>

definition extractURL ::
  "(string \<Rightarrow> string \<Rightarrow> string list) \<Rightarrow> string \<Rightarrow> ParsedMessage \<Rightarrow> url_error + string" where
  "extractURL findAll pattern msg =
     (case TextPlain msg of
        None \<Rightarrow> Inl ErrNoPlaintext
      | Some text \<Rightarrow>
          (case findAll pattern text of
             [] \<Rightarrow> Inl ErrNoMatchesFound
           | [url] \<Rightarrow> Inr url
           | _ \<Rightarrow> Inl ErrMultipleFound))"

text \<open>
  Modelled from the spec: extraction followed by the queue send. \<open>send queue body\<close> is
  the queue collaborator, which answers with a message id or an error and changes the
  queue's state \<open>'q\<close>. The second component of the result lists the bodies sent.
\<close>

definition enqueueURL ::
  "(string \<Rightarrow> string \<Rightarrow> string list) \<Rightarrow> string \<Rightarrow> (string \<Rightarrow> string \<Rightarrow> 'q \<Rightarrow> (error + string) \<times> 'q)
     \<Rightarrow> string \<Rightarrow> ParsedMessage \<Rightarrow> 'q \<Rightarrow> (url_error option \<times> string list) \<times> 'q" where
  "enqueueURL findAll pattern send queue msg q =
     (case extractURL findAll pattern msg of
        Inl err \<Rightarrow> ((Some err, []), q)
      | Inr url \<Rightarrow>
          (case send queue url q of
             (Inl err, q') \<Rightarrow> ((Some (SendError err), [url]), q')
           | (Inr messageId, q') \<Rightarrow> ((None, [url]), q')))"

text \<open>Fixtures after the test: the pattern, a plaintext with one link, one with none, one
  with two, a matcher that knows these three texts, and a queue that records what it
  is sent.\<close>

definition test_URLPattern :: string where
  "test_URLPattern = ''https://mcusercontent.com/.+'' @ [CHR 0x5C] @ ''.xlsx''"

definition test_findAll :: "string \<Rightarrow> string \<Rightarrow> string list" where
  "test_findAll pattern text =
     (if pattern = test_URLPattern \<and>
         text = ''Download: https://mcusercontent.com/123456/files/file-01.xlsx\<newline>''
      then [''https://mcusercontent.com/123456/files/file-01.xlsx'']
      else if pattern = test_URLPattern \<and>
         text = ''https://mcusercontent.com/1/a.xlsx\<newline>https://mcusercontent.com/2/b.xlsx\<newline>''
      then [''https://mcusercontent.com/1/a.xlsx'', ''https://mcusercontent.com/2/b.xlsx'']
      else [])"

definition MockSQS :: "string \<Rightarrow> string \<Rightarrow> string list \<Rightarrow> (error + string) \<times> string list" where
  "MockSQS queue body q = (Inr ''123456789012345678901234567890'', q @ [body])"

section \<open>Reading a run\<close>

text \<open>The result of each record's task in a run of the group, in the order of the
  records, with the events of that task.\<close>

fun outcomes ::
  "('r \<Rightarrow> 'w \<Rightarrow> (error option \<times> Event list) \<times> 'w) \<Rightarrow> 'r list \<Rightarrow> 'w \<Rightarrow> (error option \<times> Event list) list" where
  "outcomes f [] w = []"
| "outcomes f (record # records) w =
     (case f record w of (res, w1) \<Rightarrow> res # outcomes f records w1)"

text \<open>
  The trace against the client: the state in which the service is left when the
  client is asked the calls of a trace one after the other, and whether the result
  recorded with each put is the answer the client gave at that point.
\<close>

fun client_run :: "'w S3Client \<Rightarrow> Context \<Rightarrow> Event list \<Rightarrow> 'w \<Rightarrow> 'w" where
  "client_run c ctx [] w = w"
| "client_run c ctx (GetObjectCall input # evs) w =
     client_run c ctx evs (snd (GetObject c ctx input w))"
| "client_run c ctx (PutObjectCall input res # evs) w =
     client_run c ctx evs (snd (PutObject c ctx input w))"
| "client_run c ctx (Metric name n # evs) w = client_run c ctx evs w"

fun answered :: "'w S3Client \<Rightarrow> Context \<Rightarrow> Event list \<Rightarrow> 'w \<Rightarrow> bool" where
  "answered c ctx [] w = True"
| "answered c ctx (GetObjectCall input # evs) w =
     answered c ctx evs (snd (GetObject c ctx input w))"
| "answered c ctx (PutObjectCall input res # evs) w =
     (fst (PutObject c ctx input w) = res \<and> answered c ctx evs (snd (PutObject c ctx input w)))"
| "answered c ctx (Metric name n # evs) w = answered c ctx evs w"

text \<open>The error at the end of a chain of wrapped errors.\<close>

fun cause :: "error \<Rightarrow> error" where
  "cause (New msg) = New msg"
| "cause (Wrapped msg err) = cause err"

text \<open>The records that failed, and the puts that the service accepted.\<close>

definition failed :: "(error option \<times> Event list) list \<Rightarrow> error list" where
  "failed rs = concat (map (\<lambda>(err, evs). case err of None \<Rightarrow> [] | Some e \<Rightarrow> [e]) rs)"

fun is_write :: "Event \<Rightarrow> bool" where
  "is_write (PutObjectCall input None) = True"
| "is_write _ = False"

fun is_put :: "Event \<Rightarrow> bool" where
  "is_put (PutObjectCall input res) = True"
| "is_put _ = False"

fun is_get :: "Event \<Rightarrow> bool" where
  "is_get (GetObjectCall input) = True"
| "is_get _ = False"

definition writes :: "Event list \<Rightarrow> Event list" where
  "writes evs = filter is_write evs"

section \<open>Fixtures of handler_test.go\<close>

text \<open>The settings of \<open>setupLambdaEnvForTesting\<close>.\<close>

definition test_env :: Env where
  "test_env = \<lparr>ValidFFISEmail = ''fake@ffis.org'', SourceDataBucket = ''test-source-data-bucket''\<rparr>"

definition RECEIVED_EMAIL_TEMPLATE :: string where
  "RECEIVED_EMAIL_TEMPLATE =
     ''From: FFIS <fake@ffis.org>\<newline>'' @
     ''Date: Mon, 24 Apr 2023 17:42:13 -0500\<newline>'' @
     ''Subject: Competitive Grant Update 23-17\<newline>'' @
     ''To: <nobody@nowhere.org>\<newline>'' @
     ''\<newline>'' @
     ''\<newline>'' @
     ''This is a test\<newline>''"

text \<open>Two more messages: one from a stranger whose display name is the FFIS address,
  and one from a stranger with a malformed date.\<close>

definition EMAIL_DISPLAY_NAME :: string where
  "EMAIL_DISPLAY_NAME =
     ''From: \"fake@ffis.org\" <intruder@example.com>\<newline>'' @
     ''Date: Mon, 24 Apr 2023 17:42:13 -0500\<newline>'' @
     ''\<newline>'' @
     ''This is a test\<newline>''"

definition EMAIL_BAD_DATE :: string where
  "EMAIL_BAD_DATE =
     ''From: Somebody <intruder@example.com>\<newline>'' @
     ''Date: yesterday\<newline>'' @
     ''\<newline>'' @
     ''This is a test\<newline>''"

text \<open>What net/mail returns on these messages and on their From and Date values;
  everything else is answered with an error.\<close>

definition RECEIVED_EMAIL_parsed :: Message where
  "RECEIVED_EMAIL_parsed =
     \<lparr>Header = [''From'' \<mapsto> [''FFIS <fake@ffis.org>''],
                 ''Date'' \<mapsto> [''Mon, 24 Apr 2023 17:42:13 -0500''],
                 ''Subject'' \<mapsto> [''Competitive Grant Update 23-17''],
                 ''To'' \<mapsto> [''<nobody@nowhere.org>'']],
      Message.Body = NewReader ''\<newline>This is a test\<newline>''\<rparr>"

definition EMAIL_DISPLAY_NAME_parsed :: Message where
  "EMAIL_DISPLAY_NAME_parsed =
     \<lparr>Header = [''From'' \<mapsto> [''\"fake@ffis.org\" <intruder@example.com>''],
                 ''Date'' \<mapsto> [''Mon, 24 Apr 2023 17:42:13 -0500'']],
      Message.Body = NewReader ''This is a test\<newline>''\<rparr>"

definition EMAIL_BAD_DATE_parsed :: Message where
  "EMAIL_BAD_DATE_parsed =
     \<lparr>Header = [''From'' \<mapsto> [''Somebody <intruder@example.com>''],
                 ''Date'' \<mapsto> [''yesterday'']],
      Message.Body = NewReader ''This is a test\<newline>''\<rparr>"

definition test_mail :: net_mail where
  "test_mail =
     \<lparr>ReadMessage = (\<lambda>b.
        if b = RECEIVED_EMAIL_TEMPLATE then Inr RECEIVED_EMAIL_parsed
        else if b = EMAIL_DISPLAY_NAME then Inr EMAIL_DISPLAY_NAME_parsed
        else if b = EMAIL_BAD_DATE then Inr EMAIL_BAD_DATE_parsed
        else Inl (New ''malformed MIME header: missing colon'')),
      ParseAddress = (\<lambda>s.
        if s = ''FFIS <fake@ffis.org>'' then
          Inr \<lparr>Name = ''FFIS'', Address = ''fake@ffis.org''\<rparr>
        else if s = ''\"fake@ffis.org\" <intruder@example.com>'' then
          Inr \<lparr>Name = ''fake@ffis.org'', Address = ''intruder@example.com''\<rparr>
        else if s = ''Somebody <intruder@example.com>'' then
          Inr \<lparr>Name = ''Somebody'', Address = ''intruder@example.com''\<rparr>
        else Inl (New ''mail: no address'')),
      ParseDate = (\<lambda>s.
        if s = ''Mon, 24 Apr 2023 17:42:13 -0500'' then
          Inr \<lparr>Year = 2023, Month = 4, Day = 24\<rparr>
        else Inl (New ''mail: header could not be parsed''))\<rparr>"

text \<open>
  An in-memory storage service behind the client, as the tests' fake server reached
  over plain HTTP: a map from bucket and key to the stored bytes. The body of a
  response is a network stream, not a seeker. To sign a put over plain HTTP the client
  must read the body and rewind it, so it refuses a body that is not a seeker and
  sends nothing; from a seeker the put stores what the body still yields.
\<close>

type_synonym store = "string \<times> string \<rightharpoonup> string"

definition s3mem :: "store S3Client" where
  "s3mem =
     \<lparr>GetObject = (\<lambda>ctx input w.
        case (GetObjectInput.Bucket input, GetObjectInput.Key input) of
          (Some bucket, Some key) \<Rightarrow>
            (case w (bucket, key) of
               None \<Rightarrow> (Inl (New ''NoSuchKey''), w)
             | Some data \<Rightarrow>
                 (Inr \<lparr>GetObjectOutput.Body =
                        \<lparr>unread = data, failure = None, seeker = False\<rparr>\<rparr>, w))
        | _ \<Rightarrow> (Inl (New ''InvalidRequest''), w)),
      PutObject = (\<lambda>ctx input w.
        case (Bucket input, Key input) of
          (Some bucket, Some key) \<Rightarrow>
            if seeker (Body input) then (None, w((bucket, key) \<mapsto> unread (Body input)))
            else (Some (New ''request stream is not seekable''), w)
        | _ \<Rightarrow> (Some (New ''InvalidRequest''), w))\<rparr>"

text \<open>
  The same service behind a client that looks at the context before each call, as the
  real client does: under a context that is done, the call is not sent and the
  client answers with an operation error wrapping the context's error.
\<close>

definition s3mem_ctx :: "store S3Client" where
  "s3mem_ctx =
     \<lparr>GetObject = (\<lambda>ctx input w.
        case Err ctx of
          Some err \<Rightarrow> (Inl (Wrapped ''operation error S3: GetObject'' err), w)
        | None \<Rightarrow> GetObject s3mem ctx input w),
      PutObject = (\<lambda>ctx input w.
        case Err ctx of
          Some err \<Rightarrow> (Some (Wrapped ''operation error S3: PutObject'' err), w)
        | None \<Rightarrow> PutObject s3mem ctx input w)\<rparr>"

text \<open>The context and the event of the test "Context canceled during invocation".\<close>

definition canceled_ctx :: Context where
  "canceled_ctx = \<lparr>Err = Some context_Canceled\<rparr>"

definition canceled_event :: S3Event where
  "canceled_event =
     \<lparr>Records =
        [\<lparr>EventName = [], S3_Bucket_Name = ''source-bucket'', S3_Object_Key = ''does/not/matter''\<rparr>]\<rparr>"

text \<open>
  A client on which the cancellation arrives while the first response body is being
  read. The state says whether the signal has arrived: the first fetch is answered
  with a body that breaks off with the context's error, and every call after it is
  refused with an operation error wrapping the context's error.
\<close>

definition s3_signal :: "bool S3Client" where
  "s3_signal =
     \<lparr>GetObject = (\<lambda>ctx input arrived.
        if arrived then (Inl (Wrapped ''operation error S3: GetObject'' context_Canceled), True)
        else (Inr \<lparr>GetObjectOutput.Body =
                    \<lparr>unread = ''From: FFIS <fake@'', failure = Some context_Canceled,
                     seeker = False\<rparr>\<rparr>, True)),
      PutObject = (\<lambda>ctx input arrived.
        (Some (Wrapped ''operation error S3: PutObject'' context_Canceled), True))\<rparr>"

definition Background :: Context where
  "Background = \<lparr>Err = None\<rparr>"

text \<open>The event of the test "Missing source object" and the store it runs on.\<close>

definition test_store :: store where
  "test_store = [(''test-email-bucket'', ''ses/ffis_ingest/new/test.eml'') \<mapsto> RECEIVED_EMAIL_TEMPLATE]"

definition test_event :: S3Event where
  "test_event =
     \<lparr>Records =
        [\<lparr>EventName = [], S3_Bucket_Name = ''test-email-bucket'', S3_Object_Key = ''does/not/exist''\<rparr>,
         \<lparr>EventName = [], S3_Bucket_Name = ''test-email-bucket'',
          S3_Object_Key = ''ses/ffis_ingest/new/test.eml''\<rparr>]\<rparr>"

section \<open>Facts about the library functions\<close>

lemma Index_nonneg_iff_sublist: "0 \<le> Index s substr \<longleftrightarrow> sublist substr s"
  by (induction s) (auto simp: sublist_Cons_right Let_def)

lemma Contains_iff_sublist: "Contains s substr \<longleftrightarrow> sublist substr s"
  by (simp add: Contains_def Index_nonneg_iff_sublist)

lemma Contains_iff: "Contains s substr \<longleftrightarrow> (\<exists>ps ss. s = ps @ substr @ ss)"
  by (simp add: Contains_iff_sublist sublist_def)

lemma digit_val_nth: "d < 10 \<Longrightarrow> digit_val (''0123456789'' ! d) = d"
proof -
  assume "d < 10"
  then have "d = 0 \<or> d = 1 \<or> d = 2 \<or> d = 3 \<or> d = 4 \<or> d = 5 \<or> d = 6 \<or> d = 7 \<or> d = 8 \<or> d = 9"
    by arith
  then show ?thesis
    by (elim disjE) (simp_all add: digit_val_def)
qed

lemma digit_nth_mem: "d < 10 \<Longrightarrow> ''0123456789'' ! d \<in> set ''0123456789''"
  by (rule nth_mem) simp

lemma digits_nonempty: "digits n \<noteq> []"
  by (subst digits.simps) simp

lemma set_digits: "set (digits n) \<subseteq> set ''0123456789''"
proof (induction n rule: digits.induct)
  case (1 n)
  show ?case
  proof (cases "n < 10")
    case True
    then show ?thesis using digit_nth_mem [of n] by (subst digits.simps) simp
  next
    case False
    then show ?thesis using 1 digit_nth_mem [of "n mod 10"] by (subst digits.simps) simp
  qed
qed

lemma decimal_val_snoc: "decimal_val (s @ [c]) = 10 * decimal_val s + digit_val c"
  by (simp add: decimal_val_def)

lemma decimal_val_digits: "decimal_val (digits n) = n"
proof (induction n rule: digits.induct)
  case (1 n)
  show ?case
  proof (cases "n < 10")
    case True
    then show ?thesis by (subst digits.simps) (simp add: decimal_val_def digit_val_nth)
  next
    case False
    then show ?thesis using 1
      by (subst digits.simps) (simp add: decimal_val_snoc digit_val_nth)
  qed
qed

lemma hd_digits: "0 < n \<Longrightarrow> hd (digits n) \<noteq> CHR ''0''"
proof (induction n rule: digits.induct)
  case (1 n)
  show ?case
  proof (cases "n < 10")
    case True
    have "digit_val (''0123456789'' ! n) = n"
      using True by (rule digit_val_nth)
    moreover have "digit_val CHR ''0'' = 0"
      by (simp add: digit_val_def)
    ultimately have "''0123456789'' ! n \<noteq> CHR ''0''"
      using 1(2) by auto
    with True show ?thesis by (subst digits.simps) simp
  next
    case False
    then have "0 < n div 10" by simp
    with 1 False have "hd (digits (n div 10)) \<noteq> CHR ''0''" by simp
    with False show ?thesis by (subst digits.simps) (simp add: digits_nonempty)
  qed
qed

lemma fmt_d_pos:
  "0 < i \<Longrightarrow> hd (fmt_d i) \<noteq> CHR ''0'' \<and> set (fmt_d i) \<subseteq> set ''0123456789'' \<and> int (decimal_val (fmt_d i)) = i"
  using hd_digits [of "nat i"] set_digits [of "nat i"]
  by (simp add: fmt_d_def decimal_val_digits)

lemma key_2023_4_24: "s3ObjectKey_of \<lparr>Year = 2023, Month = 4, Day = 24\<rparr> = ''sources/2023/4/24/ffis/raw.eml''"
  by (simp add: s3ObjectKey_of_def fmt_d_def digits.simps)

section \<open>Facts about the record task and the group\<close>

lemma UploadS3Object_stream_events:
  "UploadS3Object_stream ctx c bucket key r w = ((err, evs), w') \<Longrightarrow>
     \<exists>input. evs = [PutObjectCall input err]"
  by (auto simp: UploadS3Object_stream_def Let_def split: prod.splits)

lemma processEmail_shape:
  assumes "processEmail lib env ctx svc r w = ((err, evs), w')"
  shows "(evs = [] \<and> err \<noteq> None \<and> w' = w) \<or>
         (\<exists>input e. evs = [PutObjectCall input (Some e)] \<and> err \<noteq> None) \<or>
         (\<exists>input. evs = [PutObjectCall input None, Metric ''email.moved'' 1] \<and> err = None)"
proof (cases "failure r")
  case (Some e)
  with assms have "evs = [] \<and> err = Some e \<and> w' = w"
    by (simp add: processEmail_def ReadAll_def)
  then show ?thesis by simp
next
  case None
  with assms show ?thesis
    by (auto simp: processEmail_def ReadAll_def
        split: sum.splits prod.splits if_splits option.splits
        dest!: UploadS3Object_stream_events)
qed

lemma processEmail_writes:
  assumes "processEmail lib env ctx svc r w = ((err, evs), w')"
  shows "length (filter is_put evs) \<le> 1 \<and> length (writes evs) = (if err = None then 1 else 0)
     \<and> filter is_get evs = []"
  using processEmail_shape [OF assms] by (auto simp: writes_def)

lemma handleRecord_writes:
  assumes "handleRecord lib env s3svc ctx record w = ((err, evs), w')"
  shows "length (filter is_put evs) \<le> 1 \<and> length (writes evs) = (if err = None then 1 else 0)
     \<and> length (filter is_get evs) = 1"
  using assms
  by (auto simp: handleRecord_def Let_def deferred_metric_def writes_def
      split: option.splits sum.splits prod.splits if_splits
      dest!: processEmail_writes)

lemma Group_run_outcomes:
  "Group_run f records g w = ((g', evs), w') \<Longrightarrow>
     evs = concat (map snd (outcomes f records w)) \<and>
     g' = foldl Append g (failed (outcomes f records w))"
proof (induction records arbitrary: g w g' evs w')
  case Nil
  then show ?case by (simp add: failed_def)
next
  case (Cons x records)
  then show ?case
    by (auto simp: failed_def split: prod.splits option.splits)
qed

lemma length_outcomes: "length (outcomes f records w) = length records"
  by (induction records arbitrary: w) (auto split: prod.splits)

lemma foldl_Append_Some:
  "foldl Append (Some m) es = Some \<lparr>Errors = Errors m @ es\<rparr>"
  by (induction es arbitrary: m) (auto simp: Append_def)

lemma foldl_Append_None:
  "foldl Append None es = (if es = [] then None else Some \<lparr>Errors = es\<rparr>)"
  by (cases es) (auto simp: Append_def foldl_Append_Some)

lemma outcomes_writes:
  assumes "\<And>r w res w'. f r w = (res, w') \<Longrightarrow> length (writes (snd res)) = (if fst res = None then 1 else 0)"
  shows "length (writes (concat (map snd (outcomes f records w)))) + length (failed (outcomes f records w)) = length records"
proof (induction records arbitrary: w)
  case Nil
  then show ?case by (simp add: writes_def failed_def)
next
  case (Cons x records)
  obtain res w1 where f: "f x w = (res, w1)" by (cases "f x w")
  from assms [OF f] Cons [of w1] f show ?case
    by (cases res) (auto simp: writes_def failed_def split: option.splits)
qed

lemmas fixture_defs =
  test_env_def RECEIVED_EMAIL_TEMPLATE_def EMAIL_DISPLAY_NAME_def EMAIL_BAD_DATE_def
  RECEIVED_EMAIL_parsed_def EMAIL_DISPLAY_NAME_parsed_def EMAIL_BAD_DATE_parsed_def
  test_mail_def s3mem_def Background_def test_store_def test_event_def
  s3mem_ctx_def canceled_ctx_def canceled_event_def context_Canceled_def s3_signal_def

lemmas handler_defs =
  handleS3EventWithConfig_def handleRecord_def processEmail_def processHeader_def
  handleS3EventWithConfig_bytes_def handleRecord_bytes_def processEmail_bytes_def
  UploadS3Object_def UploadS3Object_stream_def deferred_metric_def
  ErrorOrNil_def Append_def Len_def Errorf_def ReadAll_def NewReader_def Get_def
  Contains_def s3ObjectKey_of_def fmt_d_def digits.simps aws_String_def
  ServerSideEncryptionAes256_def Let_def

lemma outcomes_all:
  assumes "\<And>r w res w'. f r w = (res, w') \<Longrightarrow> P res"
  shows "\<forall>res \<in> set (outcomes f records w). P res"
proof (induction records arbitrary: w)
  case Nil
  then show ?case by simp
next
  case (Cons x records)
  obtain res w1 where f: "f x w = (res, w1)" by (cases "f x w")
  from assms [OF f] Cons [of w1] f show ?case by simp
qed


lemma processEmail_pass:
  assumes "failure r = None" and "ReadMessage lib (unread r) = Inr email"
    and "processHeader lib (Header email) = Inr (address, key)"
    and "Contains address (ValidFFISEmail env)"
  shows "processEmail lib env ctx svc r w =
     (let input = \<lparr>Bucket = Some (SourceDataBucket env), Key = Some key,
                   Body = r\<lparr>unread := []\<rparr>, ServerSideEncryption = ''AES256''\<rparr>;
          put = PutObject svc ctx input w
      in case fst put of
           Some err \<Rightarrow>
             ((Some (Wrapped ''Error uploading S3 object to Grants source data bucket'' err),
               [PutObjectCall input (Some err)]), snd put)
         | None \<Rightarrow> ((None, [PutObjectCall input None, Metric ''email.moved'' 1]), snd put))"
  using assms
  by (simp add: processEmail_def ReadAll_def UploadS3Object_stream_def Errorf_def aws_String_def
      ServerSideEncryptionAes256_def Let_def split_beta split: option.splits)

lemma processEmail_bytes_pass:
  assumes "ReadMessage lib b = Inr email"
    and "ParseAddress lib (Get (Header email) ''From'') = Inr mailFrom"
    and "Contains (Address mailFrom) (ValidFFISEmail env)"
    and "ParseDate lib (Get (Header email) ''Date'') = Inr t"
  shows "processEmail_bytes lib env ctx svc b w =
     (let input = \<lparr>Bucket = Some (SourceDataBucket env), Key = Some (s3ObjectKey_of t),
                   Body = \<lparr>unread = b, failure = None, seeker = True\<rparr>, ServerSideEncryption = ''AES256''\<rparr>;
          put = PutObject svc ctx input w
      in case fst put of
           Some err \<Rightarrow>
             ((Some (Wrapped ''Error uploading prepared grant opportunity to DynamoDB'' err),
               [PutObjectCall input (Some err)]), snd put)
         | None \<Rightarrow> ((None, [PutObjectCall input None, Metric ''email.moved'' 1]), snd put))"
  using assms
  by (simp add: processEmail_bytes_def UploadS3Object_def Errorf_def aws_String_def NewReader_def
      ServerSideEncryptionAes256_def Let_def split_beta split: option.splits)

lemma processEmail_reject:
  assumes "failure r = None" and "ReadMessage lib (unread r) = Inr email"
    and "processHeader lib (Header email) = Inr (address, key)"
    and "\<not> Contains address (ValidFFISEmail env)"
  shows "processEmail lib env ctx svc r w =
     ((Some (Wrapped ''Origin email address does not match FFIS address''
               (New ''Invalid email address'')), []), w)"
  using assms by (simp add: processEmail_def ReadAll_def Errorf_def)

lemma processEmail_bytes_reject:
  assumes "ReadMessage lib b = Inr email"
    and "ParseAddress lib (Get (Header email) ''From'') = Inr mailFrom"
    and "\<not> Contains (Address mailFrom) (ValidFFISEmail env)"
  shows "processEmail_bytes lib env ctx svc b w =
     ((Some (Wrapped ''Origin email address does not match FFIS address''
               (New ''Invalid email address'')), []), w)"
  using assms by (simp add: processEmail_bytes_def Errorf_def)

lemma processEmail_bytes_bad_date:
  assumes "ReadMessage lib b = Inr email"
    and "ParseAddress lib (Get (Header email) ''From'') = Inr mailFrom"
    and "Contains (Address mailFrom) (ValidFFISEmail env)"
    and "ParseDate lib (Get (Header email) ''Date'') = Inl err"
  shows "processEmail_bytes lib env ctx svc b w =
     ((Some (Wrapped ''Error parsing date for S3 object key'' err), []), w)"
  using assms by (simp add: processEmail_bytes_def Errorf_def)

lemma processHeader_Inr:
  "processHeader lib h = Inr (address, key) \<longleftrightarrow>
     (\<exists>mailFrom t. ParseAddress lib (Get h ''From'') = Inr mailFrom \<and>
        ParseDate lib (Get h ''Date'') = Inr t \<and>
        address = Address mailFrom \<and> key = s3ObjectKey_of t)"
  by (auto simp: processHeader_def split: sum.splits)

lemma test_mail_template:
  "ReadMessage test_mail RECEIVED_EMAIL_TEMPLATE = Inr RECEIVED_EMAIL_parsed"
  "ParseAddress test_mail (Get (Header RECEIVED_EMAIL_parsed) ''From'')
     = Inr \<lparr>Name = ''FFIS'', Address = ''fake@ffis.org''\<rparr>"
  "ParseDate test_mail (Get (Header RECEIVED_EMAIL_parsed) ''Date'')
     = Inr \<lparr>Year = 2023, Month = 4, Day = 24\<rparr>"
  by (simp_all add: test_mail_def RECEIVED_EMAIL_parsed_def Get_def)

lemma test_mail_display_name:
  "ReadMessage test_mail EMAIL_DISPLAY_NAME = Inr EMAIL_DISPLAY_NAME_parsed"
  "ParseAddress test_mail (Get (Header EMAIL_DISPLAY_NAME_parsed) ''From'')
     = Inr \<lparr>Name = ''fake@ffis.org'', Address = ''intruder@example.com''\<rparr>"
  "ParseDate test_mail (Get (Header EMAIL_DISPLAY_NAME_parsed) ''Date'')
     = Inr \<lparr>Year = 2023, Month = 4, Day = 24\<rparr>"
  by (simp_all add: test_mail_def EMAIL_DISPLAY_NAME_parsed_def EMAIL_DISPLAY_NAME_def
      RECEIVED_EMAIL_TEMPLATE_def Get_def)

lemma test_mail_bad_date:
  "ReadMessage test_mail EMAIL_BAD_DATE = Inr EMAIL_BAD_DATE_parsed"
  "ParseAddress test_mail (Get (Header EMAIL_BAD_DATE_parsed) ''From'')
     = Inr \<lparr>Name = ''Somebody'', Address = ''intruder@example.com''\<rparr>"
  "ParseDate test_mail (Get (Header EMAIL_BAD_DATE_parsed) ''Date'')
     = Inl (New ''mail: header could not be parsed'')"
  by (simp_all add: test_mail_def EMAIL_BAD_DATE_parsed_def EMAIL_BAD_DATE_def
      EMAIL_DISPLAY_NAME_def RECEIVED_EMAIL_TEMPLATE_def Get_def)

lemma test_Contains:
  "Contains ''fake@ffis.org'' (ValidFFISEmail test_env)"
  "\<not> Contains ''intruder@example.com'' (ValidFFISEmail test_env)"
  "Contains ''fake@ffis.org'' ''ffis''"
  by (simp_all add: Contains_def test_env_def)

lemma processEmail_upload_not_rejection:
  assumes "failure r = None" and "ReadMessage lib (unread r) = Inr email"
    and "processHeader lib (Header email) = Inr (address, key)"
    and "Contains address (ValidFFISEmail env)"
  shows "fst (processEmail lib env ctx svc r w) \<noteq>
     (Some (Wrapped ''Origin email address does not match FFIS address''
              (New ''Invalid email address'')), [])"
  using processEmail_pass [OF assms, of ctx svc w]
  by (simp add: Let_def split: option.splits)

lemma processEmail_bytes_not_rejection:
  assumes "ReadMessage lib b = Inr email"
    and "ParseAddress lib (Get (Header email) ''From'') = Inr mailFrom"
    and "Contains (Address mailFrom) (ValidFFISEmail env)"
  shows "fst (processEmail_bytes lib env ctx svc b w) \<noteq>
     (Some (Wrapped ''Origin email address does not match FFIS address''
              (New ''Invalid email address'')), [])"
proof (cases "ParseDate lib (Get (Header email) ''Date'')")
  case (Inl err)
  from processEmail_bytes_bad_date [OF assms Inl, of ctx svc w] show ?thesis by simp
next
  case (Inr t)
  from processEmail_bytes_pass [OF assms Inr, of ctx svc w] show ?thesis
    by (simp add: Let_def split: option.splits)
qed

lemma test_processHeader_template:
  "processHeader test_mail (Header RECEIVED_EMAIL_parsed)
     = Inr (''fake@ffis.org'', ''sources/2023/4/24/ffis/raw.eml'')"
  by (simp add: processHeader_def test_mail_template key_2023_4_24)

lemma test_processHeader_display_name:
  "processHeader test_mail (Header EMAIL_DISPLAY_NAME_parsed)
     = Inr (''intruder@example.com'', ''sources/2023/4/24/ffis/raw.eml'')"
  by (simp add: processHeader_def test_mail_display_name key_2023_4_24)


lemma processEmail_put_body_exhausted:
  assumes "PutObjectCall input res \<in> set (snd (fst (processEmail lib env ctx svc r w)))"
  shows "unread (Body input) = [] \<and> Bucket input = Some (SourceDataBucket env)"
  using assms
  by (auto simp: processEmail_def ReadAll_def UploadS3Object_stream_def aws_String_def Let_def
      split: option.splits sum.splits prod.splits if_splits)

lemma processEmail_bytes_put_body:
  assumes "PutObjectCall input res \<in> set (snd (fst (processEmail_bytes lib env ctx svc b w)))"
  shows "Body input = \<lparr>unread = b, failure = None, seeker = True\<rparr> \<and> Bucket input = Some (SourceDataBucket env)"
  using assms
  by (auto simp: processEmail_bytes_def UploadS3Object_def aws_String_def NewReader_def Let_def
      split: option.splits sum.splits prod.splits if_splits)

lemma test_processEmail_template:
  "processEmail test_mail test_env Background s3mem (NewReader RECEIVED_EMAIL_TEMPLATE) Map.empty =
     ((None,
       [PutObjectCall \<lparr>Bucket = Some ''test-source-data-bucket'',
                       Key = Some ''sources/2023/4/24/ffis/raw.eml'',
                       Body = \<lparr>unread = [], failure = None, seeker = True\<rparr>,
                       ServerSideEncryption = ''AES256''\<rparr> None,
        Metric ''email.moved'' 1]),
      [(''test-source-data-bucket'', ''sources/2023/4/24/ffis/raw.eml'') \<mapsto> []])"
proof -
  have r: "failure (NewReader RECEIVED_EMAIL_TEMPLATE) = None"
    "ReadMessage test_mail (unread (NewReader RECEIVED_EMAIL_TEMPLATE)) = Inr RECEIVED_EMAIL_parsed"
    by (simp_all add: NewReader_def test_mail_template)
  show ?thesis
    by (simp add: processEmail_pass [OF r test_processHeader_template test_Contains(1)] Let_def)
       (simp add: s3mem_def test_env_def NewReader_def)
qed

lemma test_processEmail_bytes_template:
  "processEmail_bytes test_mail test_env Background s3mem RECEIVED_EMAIL_TEMPLATE Map.empty =
     ((None,
       [PutObjectCall \<lparr>Bucket = Some ''test-source-data-bucket'',
                       Key = Some ''sources/2023/4/24/ffis/raw.eml'',
                       Body = \<lparr>unread = RECEIVED_EMAIL_TEMPLATE, failure = None, seeker = True\<rparr>,
                       ServerSideEncryption = ''AES256''\<rparr> None,
        Metric ''email.moved'' 1]),
      [(''test-source-data-bucket'', ''sources/2023/4/24/ffis/raw.eml'') \<mapsto> RECEIVED_EMAIL_TEMPLATE])"
proof -
  have c: "Contains (Address \<lparr>Name = ''FFIS'', Address = ''fake@ffis.org''\<rparr>) (ValidFFISEmail test_env)"
    using test_Contains(1) by simp
  show ?thesis
    by (simp add: processEmail_bytes_pass [OF test_mail_template(1,2) c test_mail_template(3)]
          Let_def key_2023_4_24)
       (simp add: s3mem_def test_env_def)
qed

lemma test_processEmail_display_name:
  "processEmail test_mail test_env Background s3mem
     \<lparr>unread = EMAIL_DISPLAY_NAME, failure = None, seeker = True\<rparr> Map.empty =
     ((Some (Wrapped ''Origin email address does not match FFIS address''
               (New ''Invalid email address'')), []), Map.empty)"
  using processEmail_reject [of "\<lparr>unread = EMAIL_DISPLAY_NAME, failure = None, seeker = True\<rparr>" test_mail
      EMAIL_DISPLAY_NAME_parsed "''intruder@example.com''" "''sources/2023/4/24/ffis/raw.eml''"
      test_env Background s3mem Map.empty]
    test_mail_display_name(1) test_processHeader_display_name test_Contains(2)
  by simp

lemma test_processEmail_bytes_display_name:
  "processEmail_bytes test_mail test_env Background s3mem EMAIL_DISPLAY_NAME Map.empty =
     ((Some (Wrapped ''Origin email address does not match FFIS address''
               (New ''Invalid email address'')), []), Map.empty)"
proof -
  have n: "\<not> Contains (Address \<lparr>Name = ''fake@ffis.org'', Address = ''intruder@example.com''\<rparr>)
             (ValidFFISEmail test_env)"
    using test_Contains(2) by simp
  show ?thesis
    by (rule processEmail_bytes_reject [OF test_mail_display_name(1,2) n])
qed

lemma processEmail_no_put:
  assumes "filter is_put (snd (fst (processEmail lib env ctx svc r w))) = []"
  shows "snd (fst (processEmail lib env ctx svc r w)) = [] \<and>
         fst (fst (processEmail lib env ctx svc r w)) \<noteq> None \<and>
         snd (processEmail lib env ctx svc r w) = w"
proof -
  obtain err evs w' where p: "processEmail lib env ctx svc r w = ((err, evs), w')"
    by (metis prod.exhaust)
  from processEmail_shape [OF p] assms p show ?thesis by auto
qed

lemma processEmail_bytes_shape:
  assumes "processEmail_bytes lib env ctx svc b w = ((err, evs), w')"
  shows "(evs = [] \<and> err \<noteq> None \<and> w' = w) \<or>
         (\<exists>input e. evs = [PutObjectCall input (Some e)] \<and> err \<noteq> None) \<or>
         (\<exists>input. evs = [PutObjectCall input None, Metric ''email.moved'' 1] \<and> err = None)"
  using assms
  by (auto simp: processEmail_bytes_def UploadS3Object_def Let_def
      split: sum.splits prod.splits if_splits option.splits)

lemma processEmail_bytes_no_put:
  assumes "filter is_put (snd (fst (processEmail_bytes lib env ctx svc b w))) = []"
  shows "snd (fst (processEmail_bytes lib env ctx svc b w)) = [] \<and>
         fst (fst (processEmail_bytes lib env ctx svc b w)) \<noteq> None \<and>
         snd (processEmail_bytes lib env ctx svc b w) = w"
proof -
  obtain err evs w' where p: "processEmail_bytes lib env ctx svc b w = ((err, evs), w')"
    by (metis prod.exhaust)
  from processEmail_bytes_shape [OF p] assms p show ?thesis by auto
qed

lemma revisions_same_upload_decision:
  "filter is_put (snd (fst (processEmail lib env ctx svc \<lparr>unread = b, failure = None, seeker = sk\<rparr> w))) = []
   \<longleftrightarrow> filter is_put (snd (fst (processEmail_bytes lib env ctx svc b w))) = []"
  by (auto simp: processEmail_def processEmail_bytes_def processHeader_def ReadAll_def
      UploadS3Object_def UploadS3Object_stream_def Let_def split_beta
      split: sum.splits option.splits if_splits)

lemma revisions_same_cause:
  assumes "filter is_put (snd (fst (processEmail lib env ctx svc \<lparr>unread = b, failure = None, seeker = sk\<rparr> w))) = []"
    and "\<not> (\<exists>email a e. ReadMessage lib b = Inr email \<and>
            ParseAddress lib (Get (Header email) ''From'') = Inr a \<and>
            \<not> Contains (Address a) (ValidFFISEmail env) \<and>
            ParseDate lib (Get (Header email) ''Date'') = Inl e)"
  shows "map_option cause (fst (fst (processEmail lib env ctx svc \<lparr>unread = b, failure = None, seeker = sk\<rparr> w)))
       = map_option cause (fst (fst (processEmail_bytes lib env ctx svc b w)))"
  using assms
  by (auto simp: processEmail_def processEmail_bytes_def processHeader_def ReadAll_def
      UploadS3Object_def UploadS3Object_stream_def Errorf_def Let_def split_beta
      split: sum.splits option.splits if_splits)

lemma revisions_same_destination:
  assumes "PutObjectCall i1 x1 \<in> set (snd (fst (processEmail lib env ctx svc \<lparr>unread = b, failure = None, seeker = sk\<rparr> w)))"
    and "PutObjectCall i2 x2 \<in> set (snd (fst (processEmail_bytes lib env ctx svc b w)))"
  shows "Bucket i1 = Bucket i2 \<and> Key i1 = Key i2 \<and> ServerSideEncryption i1 = ServerSideEncryption i2"
  using assms
  by (auto simp: processEmail_def processEmail_bytes_def processHeader_def ReadAll_def
      UploadS3Object_def UploadS3Object_stream_def Let_def split_beta
      split: sum.splits option.splits if_splits)

lemma client_run_append:
  "client_run c ctx (xs @ ys) w = client_run c ctx ys (client_run c ctx xs w)"
  by (induction c ctx xs w rule: client_run.induct) simp_all

lemma answered_append:
  "answered c ctx (xs @ ys) w \<longleftrightarrow> answered c ctx xs w \<and> answered c ctx ys (client_run c ctx xs w)"
  by (induction c ctx xs w rule: answered.induct) simp_all

lemma processEmail_trace:
  assumes "processEmail lib env ctx svc r w = ((err, evs), w')"
  shows "answered svc ctx evs w \<and> w' = client_run svc ctx evs w"
proof (cases "failure r")
  case (Some e)
  with assms have "evs = [] \<and> w' = w"
    by (simp add: processEmail_def ReadAll_def)
  then show ?thesis by simp
next
  case None
  with assms show ?thesis
    by (auto simp: processEmail_def ReadAll_def UploadS3Object_stream_def Let_def
        split: sum.splits prod.splits if_splits option.splits)
qed

lemma processEmail_bytes_trace:
  assumes "processEmail_bytes lib env ctx svc b w = ((err, evs), w')"
  shows "answered svc ctx evs w \<and> w' = client_run svc ctx evs w"
  using assms
  by (auto simp: processEmail_bytes_def UploadS3Object_def Let_def
      split: sum.splits prod.splits if_splits option.splits)

lemma processEmail_bytes_writes:
  assumes "processEmail_bytes lib env ctx svc b w = ((err, evs), w')"
  shows "length (filter is_put evs) \<le> 1 \<and> length (writes evs) = (if err = None then 1 else 0)
     \<and> filter is_get evs = []"
  using processEmail_bytes_shape [OF assms] by (auto simp: writes_def)

lemma handleRecord_trace:
  assumes "handleRecord lib env s3svc ctx rec w = ((err, evs), w')"
  shows "answered s3svc ctx evs w \<and> w' = client_run s3svc ctx evs w"
  using assms
  by (auto simp: handleRecord_def Let_def deferred_metric_def answered_append client_run_append
      split: sum.splits prod.splits if_splits
      dest!: processEmail_trace)

lemma handleRecord_bytes_writes:
  assumes "handleRecord_bytes lib env s3svc ctx rec w = ((err, evs), w')"
  shows "length (filter is_put evs) \<le> 1 \<and> length (writes evs) = (if err = None then 1 else 0)
     \<and> length (filter is_get evs) = 1"
proof -
  let ?input = "\<lparr>GetObjectInput.Bucket = aws_String (S3_Bucket_Name rec),
                   GetObjectInput.Key = aws_String (S3_Object_Key rec)\<rparr>"
  obtain resp w1 where g: "GetObject s3svc ctx ?input w = (resp, w1)"
    by (metis prod.exhaust)
  show ?thesis
  proof (cases resp)
    case (Inl e)
    with assms g show ?thesis
      by (auto simp: handleRecord_bytes_def Let_def deferred_metric_def writes_def)
  next
    case (Inr out)
    show ?thesis
    proof (cases "failure (GetObjectOutput.Body out)")
      case (Some e)
      with assms g Inr show ?thesis
        by (auto simp: handleRecord_bytes_def Let_def deferred_metric_def writes_def ReadAll_def)
    next
      case None
      with assms g Inr show ?thesis
        by (auto simp: handleRecord_bytes_def Let_def deferred_metric_def writes_def ReadAll_def
            split: prod.splits if_splits dest!: processEmail_bytes_writes)
    qed
  qed
qed

lemma handleRecord_bytes_trace:
  assumes "handleRecord_bytes lib env s3svc ctx rec w = ((err, evs), w')"
  shows "answered s3svc ctx evs w \<and> w' = client_run s3svc ctx evs w"
proof -
  let ?input = "\<lparr>GetObjectInput.Bucket = aws_String (S3_Bucket_Name rec),
                   GetObjectInput.Key = aws_String (S3_Object_Key rec)\<rparr>"
  obtain resp w1 where g: "GetObject s3svc ctx ?input w = (resp, w1)"
    by (metis prod.exhaust)
  show ?thesis
  proof (cases resp)
    case (Inl e)
    with assms g show ?thesis
      by (auto simp: handleRecord_bytes_def Let_def deferred_metric_def)
  next
    case (Inr out)
    show ?thesis
    proof (cases "failure (GetObjectOutput.Body out)")
      case (Some e)
      with assms g Inr show ?thesis
        by (auto simp: handleRecord_bytes_def Let_def deferred_metric_def ReadAll_def)
    next
      case None
      with assms g Inr show ?thesis
        by (auto simp: handleRecord_bytes_def Let_def deferred_metric_def ReadAll_def
            answered_append client_run_append
            split: prod.splits if_splits dest!: processEmail_bytes_trace)
    qed
  qed
qed

lemma Group_run_trace:
  assumes task: "\<And>r v err evs v'. f r v = ((err, evs), v') \<Longrightarrow>
      answered c ctx evs v \<and> v' = client_run c ctx evs v"
  shows "Group_run f records g w = ((g', evs), w') \<Longrightarrow>
      answered c ctx evs w \<and> w' = client_run c ctx evs w"
proof (induction records arbitrary: g w g' evs w')
  case Nil
  then show ?case by simp
next
  case (Cons x records)
  obtain err evs1 w1 where f: "f x w = ((err, evs1), w1)"
    by (metis prod.exhaust)
  obtain g2 evs2 w2 where r: "Group_run f records (case err of None \<Rightarrow> g | Some e \<Rightarrow> Append g e) w1
      = ((g2, evs2), w2)"
    by (metis prod.exhaust)
  from Cons.prems f r have e: "evs = evs1 @ evs2" and w: "w' = w2"
    by simp_all
  from task [OF f] Cons.IH [OF r] show ?case
    by (simp add: e w answered_append client_run_append)
qed

lemma Group_report:
  assumes task: "\<And>r v err evs v'. f r v = ((err, evs), v') \<Longrightarrow>
      length (filter is_put evs) \<le> 1 \<and> length (writes evs) = (if err = None then 1 else 0) \<and>
      answered c ctx evs v \<and> v' = client_run c ctx evs v"
    and run: "Group_run f records None w = ((g, evs), w')"
  shows "let rs = outcomes f records w;
             N = length records;
             F = length (failed rs)
         in length rs = N \<and> F \<le> N \<and>
            (ErrorOrNil g \<noteq> None \<longleftrightarrow> 1 \<le> F) \<and> (ErrorOrNil g = None \<longleftrightarrow> F = 0) \<and>
            Len (ErrorOrNil g) = F \<and>
            (\<forall>m. ErrorOrNil g = Some m \<longrightarrow> mset (Errors m) = mset (failed rs)) \<and>
            evs = concat (map snd rs) \<and>
            answered c ctx evs w \<and> w' = client_run c ctx evs w \<and>
            length (writes evs) = N - F \<and>
            (\<forall>(err, revs) \<in> set rs.
               length (writes revs) = (if err = None then 1 else 0) \<and>
               length (filter is_put revs) \<le> 1)"
proof -
  define rs where "rs = outcomes f records w"
  from Group_run_outcomes [OF run]
  have evs: "evs = concat (map snd rs)" and g: "g = foldl Append None (failed rs)"
    by (simp_all add: rs_def)
  have one: "\<And>r w res w'. f r w = (res, w') \<Longrightarrow>
      length (writes (snd res)) = (if fst res = None then 1 else 0) \<and> length (filter is_put (snd res)) \<le> 1"
    using task by (metis prod.collapse)
  have tr: "answered c ctx evs w \<and> w' = client_run c ctx evs w"
    using Group_run_trace [of f c ctx records None w g evs w'] task run by blast
  have len: "length rs = length records"
    by (simp add: rs_def length_outcomes)
  have sum: "length (writes (concat (map snd rs))) + length (failed rs) = length records"
    unfolding rs_def by (rule outcomes_writes) (simp add: one [THEN conjunct1])
  have each: "\<forall>res \<in> set rs. length (writes (snd res)) = (if fst res = None then 1 else 0) \<and> length (filter is_put (snd res)) \<le> 1"
    unfolding rs_def by (rule outcomes_all) (rule one)
  have agg: "ErrorOrNil g = (if failed rs = [] then None else Some \<lparr>Errors = failed rs\<rparr>)"
    by (simp add: g foldl_Append_None ErrorOrNil_def)
  show ?thesis
    unfolding Let_def rs_def [symmetric]
    using len sum each agg evs tr
    by (auto simp: Len_def Suc_le_eq)
qed

lemma test_run:
  "handleS3EventWithConfig test_mail test_env s3mem Background test_event test_store =
     ((Some \<lparr>Errors = [New ''NoSuchKey'',
                         Wrapped ''Error uploading S3 object to Grants source data bucket''
                           (New ''request stream is not seekable'')]\<rparr>,
       [GetObjectCall \<lparr>GetObjectInput.Bucket = Some ''test-email-bucket'',
                       GetObjectInput.Key = Some ''does/not/exist''\<rparr>,
        Metric ''email.failed'' 1,
        GetObjectCall \<lparr>GetObjectInput.Bucket = Some ''test-email-bucket'',
                       GetObjectInput.Key = Some ''ses/ffis_ingest/new/test.eml''\<rparr>,
        PutObjectCall \<lparr>Bucket = Some ''test-source-data-bucket'',
                       Key = Some ''sources/2023/4/24/ffis/raw.eml'',
                       Body = \<lparr>unread = [], failure = None, seeker = False\<rparr>,
                       ServerSideEncryption = ''AES256''\<rparr>
          (Some (New ''request stream is not seekable'')),
        Metric ''email.failed'' 1]),
      test_store)"
  by (simp add: handler_defs fixture_defs)

lemma test_run_bytes:
  "handleS3EventWithConfig_bytes test_mail test_env s3mem Background test_event test_store =
     ((Some \<lparr>Errors = [New ''NoSuchKey'']\<rparr>,
       [GetObjectCall \<lparr>GetObjectInput.Bucket = Some ''test-email-bucket'',
                       GetObjectInput.Key = Some ''does/not/exist''\<rparr>,
        Metric ''opportunity.failed'' 1,
        GetObjectCall \<lparr>GetObjectInput.Bucket = Some ''test-email-bucket'',
                       GetObjectInput.Key = Some ''ses/ffis_ingest/new/test.eml''\<rparr>,
        PutObjectCall \<lparr>Bucket = Some ''test-source-data-bucket'',
                       Key = Some ''sources/2023/4/24/ffis/raw.eml'',
                       Body = \<lparr>unread = RECEIVED_EMAIL_TEMPLATE, failure = None, seeker = True\<rparr>,
                       ServerSideEncryption = ''AES256''\<rparr> None,
        Metric ''email.moved'' 1]),
      test_store((''test-source-data-bucket'', ''sources/2023/4/24/ffis/raw.eml'')
        \<mapsto> RECEIVED_EMAIL_TEMPLATE))"
  by (simp add: handler_defs fixture_defs)

lemma Group_run_state:
  "snd (Group_run f records g w) = snd (Group_run f records g' w)"
proof (induction records arbitrary: g g' w)
  case Nil
  show ?case by simp
next
  case (Cons x records)
  obtain err evs w1 where f: "f x w = ((err, evs), w1)"
    by (metis prod.exhaust)
  from Cons [where g = "case err of None \<Rightarrow> g | Some e \<Rightarrow> Append g e"
               and g' = "case err of None \<Rightarrow> g' | Some e \<Rightarrow> Append g' e" and w = w1]
  show ?case
    by (simp add: f case_prod_beta)
qed


lemma failed_append: "failed (xs @ ys) = failed xs @ failed ys"
  by (simp add: failed_def)













section \<open>Claims\<close>

text \<open>
  C1. For a batch of N notifications of which F records fail, handleS3EventWithConfig
  returns a non-nil aggregate error exactly when F is at least 1 and nil when F is 0,
  and the aggregate holds exactly the F errors of the failing records, in whatever
  order the tasks finished. The trace of the run is the calls the client was really
  asked: every put recorded with a result got that answer from the client, and the
  service is left in the state these calls lead to. In that trace the service
  accepted a put for exactly the N - F records that succeed: one for every
  succeeding record, none for a failing one. Both revisions of the handler.
\<close>

theorem handleS3EventWithConfig_aggregate:
  assumes "handleS3EventWithConfig lib env s3svc ctx s3Event w = ((res, evs), w')"
    and "handleS3EventWithConfig_bytes lib env s3svc ctx s3Event w = ((res_b, evs_b), w_b)"
  shows "(let rs = outcomes (handleRecord lib env s3svc ctx) (Records s3Event) w;
              N = length (Records s3Event);
              F = length (failed rs)
          in length rs = N \<and> F \<le> N \<and>
             (res \<noteq> None \<longleftrightarrow> 1 \<le> F) \<and> (res = None \<longleftrightarrow> F = 0) \<and>
             Len res = F \<and> (\<forall>m. res = Some m \<longrightarrow> mset (Errors m) = mset (failed rs)) \<and>
             evs = concat (map snd rs) \<and>
             answered s3svc ctx evs w \<and> w' = client_run s3svc ctx evs w \<and>
             length (writes evs) = N - F \<and>
             (\<forall>(err, revs) \<in> set rs.
                length (writes revs) = (if err = None then 1 else 0) \<and>
                length (filter is_put revs) \<le> 1))
       \<and> (let rs = outcomes (handleRecord_bytes lib env s3svc ctx) (Records s3Event) w;
              N = length (Records s3Event);
              F = length (failed rs)
          in length rs = N \<and> F \<le> N \<and>
             (res_b \<noteq> None \<longleftrightarrow> 1 \<le> F) \<and> (res_b = None \<longleftrightarrow> F = 0) \<and>
             Len res_b = F \<and> (\<forall>m. res_b = Some m \<longrightarrow> mset (Errors m) = mset (failed rs)) \<and>
             evs_b = concat (map snd rs) \<and>
             answered s3svc ctx evs_b w \<and> w_b = client_run s3svc ctx evs_b w \<and>
             length (writes evs_b) = N - F \<and>
             (\<forall>(err, revs) \<in> set rs.
                length (writes revs) = (if err = None then 1 else 0) \<and>
                length (filter is_put revs) \<le> 1))"
proof
  obtain g evs0 w0 where run:
    "Group_run (handleRecord lib env s3svc ctx) (Records s3Event) None w = ((g, evs0), w0)"
    by (metis prod.exhaust)
  from assms(1) run have eq: "res = ErrorOrNil g" "evs = evs0" "w' = w0"
    by (auto simp: handleS3EventWithConfig_def split: option.splits)
  have task: "length (filter is_put evs) \<le> 1 \<and> length (writes evs) = (if err = None then 1 else 0) \<and>
      answered s3svc ctx evs v \<and> v' = client_run s3svc ctx evs v"
    if "handleRecord lib env s3svc ctx r v = ((err, evs), v')" for r v err evs v'
    using handleRecord_writes [OF that] handleRecord_trace [OF that] by simp
  show "let rs = outcomes (handleRecord lib env s3svc ctx) (Records s3Event) w;
              N = length (Records s3Event);
              F = length (failed rs)
          in length rs = N \<and> F \<le> N \<and>
             (res \<noteq> None \<longleftrightarrow> 1 \<le> F) \<and> (res = None \<longleftrightarrow> F = 0) \<and>
             Len res = F \<and> (\<forall>m. res = Some m \<longrightarrow> mset (Errors m) = mset (failed rs)) \<and>
             evs = concat (map snd rs) \<and>
             answered s3svc ctx evs w \<and> w' = client_run s3svc ctx evs w \<and>
             length (writes evs) = N - F \<and>
             (\<forall>(err, revs) \<in> set rs.
                length (writes revs) = (if err = None then 1 else 0) \<and>
                length (filter is_put revs) \<le> 1)"
    unfolding eq by (rule Group_report [OF _ run]) (rule task)
next
  obtain g evs0 w0 where run:
    "Group_run (handleRecord_bytes lib env s3svc ctx) (Records s3Event) None w = ((g, evs0), w0)"
    by (metis prod.exhaust)
  from assms(2) run have eq: "res_b = ErrorOrNil g" "evs_b = evs0" "w_b = w0"
    by (auto simp: handleS3EventWithConfig_bytes_def split: option.splits)
  have task: "length (filter is_put evs) \<le> 1 \<and> length (writes evs) = (if err = None then 1 else 0) \<and>
      answered s3svc ctx evs v \<and> v' = client_run s3svc ctx evs v"
    if "handleRecord_bytes lib env s3svc ctx r v = ((err, evs), v')" for r v err evs v'
    using handleRecord_bytes_writes [OF that] handleRecord_bytes_trace [OF that] by simp
  show "let rs = outcomes (handleRecord_bytes lib env s3svc ctx) (Records s3Event) w;
              N = length (Records s3Event);
              F = length (failed rs)
          in length rs = N \<and> F \<le> N \<and>
             (res_b \<noteq> None \<longleftrightarrow> 1 \<le> F) \<and> (res_b = None \<longleftrightarrow> F = 0) \<and>
             Len res_b = F \<and> (\<forall>m. res_b = Some m \<longrightarrow> mset (Errors m) = mset (failed rs)) \<and>
             evs_b = concat (map snd rs) \<and>
             answered s3svc ctx evs_b w \<and> w_b = client_run s3svc ctx evs_b w \<and>
             length (writes evs_b) = N - F \<and>
             (\<forall>(err, revs) \<in> set rs.
                length (writes revs) = (if err = None then 1 else 0) \<and>
                length (filter is_put revs) \<le> 1)"
    unfolding eq by (rule Group_report [OF _ run]) (rule task)
qed

theorem handleS3EventWithConfig_aggregate_witness:
  "fst (handleS3EventWithConfig test_mail test_env s3mem Background test_event test_store)
     = (Some \<lparr>Errors = [New ''NoSuchKey'',
                         Wrapped ''Error uploading S3 object to Grants source data bucket''
                           (New ''request stream is not seekable'')]\<rparr>,
        [GetObjectCall \<lparr>GetObjectInput.Bucket = Some ''test-email-bucket'',
                        GetObjectInput.Key = Some ''does/not/exist''\<rparr>,
         Metric ''email.failed'' 1,
         GetObjectCall \<lparr>GetObjectInput.Bucket = Some ''test-email-bucket'',
                        GetObjectInput.Key = Some ''ses/ffis_ingest/new/test.eml''\<rparr>,
         PutObjectCall \<lparr>Bucket = Some ''test-source-data-bucket'',
                        Key = Some ''sources/2023/4/24/ffis/raw.eml'',
                        Body = \<lparr>unread = [], failure = None, seeker = False\<rparr>,
                        ServerSideEncryption = ''AES256''\<rparr>
           (Some (New ''request stream is not seekable'')),
         Metric ''email.failed'' 1])
   \<and> snd (handleS3EventWithConfig test_mail test_env s3mem Background test_event test_store)
       = test_store
   \<and> fst (fst (handleS3EventWithConfig_bytes test_mail test_env s3mem Background test_event test_store))
       = Some \<lparr>Errors = [New ''NoSuchKey'']\<rparr>
   \<and> snd (handleS3EventWithConfig_bytes test_mail test_env s3mem Background test_event test_store)
       = test_store((''test-source-data-bucket'', ''sources/2023/4/24/ffis/raw.eml'')
           \<mapsto> RECEIVED_EMAIL_TEMPLATE)
   \<and> length (Records test_event) = 2
   \<and> length (failed (outcomes (handleRecord test_mail test_env s3mem Background)
         (Records test_event) test_store)) = 2
   \<and> length (writes (snd (fst
         (handleS3EventWithConfig test_mail test_env s3mem Background test_event test_store)))) = 0
   \<and> length (failed (outcomes (handleRecord_bytes test_mail test_env s3mem Background)
         (Records test_event) test_store)) = 1
   \<and> length (writes (snd (fst
         (handleS3EventWithConfig_bytes test_mail test_env s3mem Background test_event test_store)))) = 1
   \<and> client_run s3mem Background (snd (fst
         (handleS3EventWithConfig_bytes test_mail test_env s3mem Background test_event test_store)))
         test_store
       = test_store((''test-source-data-bucket'', ''sources/2023/4/24/ffis/raw.eml'')
           \<mapsto> RECEIVED_EMAIL_TEMPLATE)"
proof -
  let ?rs = "outcomes (handleRecord test_mail test_env s3mem Background)
               (Records test_event) test_store"
  let ?rs_b = "outcomes (handleRecord_bytes test_mail test_env s3mem Background)
               (Records test_event) test_store"
  let ?H = "handleS3EventWithConfig test_mail test_env s3mem Background test_event test_store"
  let ?H_b = "handleS3EventWithConfig_bytes test_mail test_env s3mem Background test_event test_store"
  have two: "length (Records test_event) = 2"
    by (simp add: test_event_def)
  from handleS3EventWithConfig_aggregate [OF test_run test_run_bytes]
  have "Len (fst (fst ?H)) = length (failed ?rs)"
    and "length (writes (snd (fst ?H))) = length (Records test_event) - length (failed ?rs)"
    and "Len (fst (fst ?H_b)) = length (failed ?rs_b)"
    and "length (writes (snd (fst ?H_b))) = length (Records test_event) - length (failed ?rs_b)"
    and "snd ?H_b = client_run s3mem Background (snd (fst ?H_b)) test_store"
    unfolding Let_def test_run test_run_bytes fst_conv snd_conv by blast+
  then show ?thesis
    using two by (simp add: Len_def test_run test_run_bytes)
qed


text \<open>
  C7. When the fetch of a record's object fails, the record task returns exactly the
  error GetObject returned, has called GetObject once and PutObject never, and leaves
  the service as the fetch left it. The result is the same for every behaviour of the
  mail parsers, so nothing of the task depends on parsing. This holds in both
  revisions of the handler.
\<close>

theorem fetch_error_returned_unchanged:
  assumes "GetObject s3svc ctx \<lparr>GetObjectInput.Bucket = Some (S3_Bucket_Name rec),
                                 GetObjectInput.Key = Some (S3_Object_Key rec)\<rparr> w = (Inl err, w1)"
  shows "handleRecord lib env s3svc ctx rec w =
           ((Some err,
             [GetObjectCall \<lparr>GetObjectInput.Bucket = Some (S3_Bucket_Name rec),
                             GetObjectInput.Key = Some (S3_Object_Key rec)\<rparr>,
              Metric ''email.failed'' 1]), w1)
       \<and> handleRecord_bytes lib env s3svc ctx rec w =
           ((Some err,
             [GetObjectCall \<lparr>GetObjectInput.Bucket = Some (S3_Bucket_Name rec),
                             GetObjectInput.Key = Some (S3_Object_Key rec)\<rparr>,
              Metric ''opportunity.failed'' 1]), w1)"
  using assms
  by (simp add: handleRecord_def handleRecord_bytes_def aws_String_def deferred_metric_def)

theorem fetch_error_returned_unchanged_witness:
  "GetObject s3mem Background
     \<lparr>GetObjectInput.Bucket = Some ''test-email-bucket'',
      GetObjectInput.Key = Some ''does/not/exist''\<rparr> test_store
     = (Inl (New ''NoSuchKey''), test_store)
   \<and> handleRecord test_mail test_env s3mem Background
        \<lparr>EventName = [], S3_Bucket_Name = ''test-email-bucket'',
         S3_Object_Key = ''does/not/exist''\<rparr> test_store =
       ((Some (New ''NoSuchKey''),
         [GetObjectCall \<lparr>GetObjectInput.Bucket = Some ''test-email-bucket'',
                         GetObjectInput.Key = Some ''does/not/exist''\<rparr>,
          Metric ''email.failed'' 1]), test_store)"
proof -
  have get: "GetObject s3mem Background
     \<lparr>GetObjectInput.Bucket = Some (S3_Bucket_Name \<lparr>EventName = [], S3_Bucket_Name = ''test-email-bucket'',
         S3_Object_Key = ''does/not/exist''\<rparr>),
      GetObjectInput.Key = Some (S3_Object_Key \<lparr>EventName = [], S3_Bucket_Name = ''test-email-bucket'',
         S3_Object_Key = ''does/not/exist''\<rparr>)\<rparr> test_store
     = (Inl (New ''NoSuchKey''), test_store)"
    by (simp add: s3mem_def test_store_def)
  from fetch_error_returned_unchanged [OF get, of test_mail test_env] get
  show ?thesis by simp
qed

text \<open>
  C8. UploadS3Object issues exactly one PutObject, whose input names the given bucket
  and key, whose body yields exactly the given bytes, and whose server-side encryption
  is AES256; it returns the put's error unchanged, hence nil exactly when the put
  succeeded.
\<close>

theorem UploadS3Object_puts_once:
  "UploadS3Object ctx c bucket key b w =
     (let input = \<lparr>Bucket = Some bucket, Key = Some key,
                   Body = \<lparr>unread = b, failure = None, seeker = True\<rparr>,
                   ServerSideEncryption = ''AES256''\<rparr>;
          put = PutObject c ctx input w
      in ((fst put, [PutObjectCall input (fst put)]), snd put))
   \<and> (fst (fst (UploadS3Object ctx c bucket key b w)) = None \<longleftrightarrow>
        fst (PutObject c ctx \<lparr>Bucket = Some bucket, Key = Some key,
                               Body = \<lparr>unread = b, failure = None, seeker = True\<rparr>,
                               ServerSideEncryption = ''AES256''\<rparr> w) = None)"
  by (simp add: UploadS3Object_def aws_String_def ServerSideEncryptionAes256_def NewReader_def
      Let_def split_beta)

text \<open>
  C3. For every message whose Date header parses to a calendar date, the destination
  key is sources/{year}/{month}/{day}/ffis/raw.eml: processHeader derives it, every
  put of processEmail (in both revisions) carries it, and month and day are rendered
  as decimal integers without zero padding (digits only, no leading zero, denoting
  the number). The date (2023, April, 24) gives sources/2023/4/24/ffis/raw.eml.
\<close>

theorem destination_key_unpadded:
  assumes "ReadMessage lib b = Inr email"
    and "ParseAddress lib (Get (Header email) ''From'') = Inr mailFrom"
    and "ParseDate lib (Get (Header email) ''Date'') = Inr t"
    and "0 < Month t" and "0 < Day t"
  shows "let key = ''sources/'' @ fmt_d (Year t) @ ''/'' @ fmt_d (Month t) @ ''/'' @ fmt_d (Day t)
                     @ ''/ffis/raw.eml''
         in processHeader lib (Header email) = Inr (Address mailFrom, key) \<and>
            (\<forall>input res.
               PutObjectCall input res
                 \<in> set (snd (fst (processEmail lib env ctx svc \<lparr>unread = b, failure = None, seeker = sk\<rparr> w)))
               \<longrightarrow> Key input = Some key) \<and>
            (\<forall>input res.
               PutObjectCall input res \<in> set (snd (fst (processEmail_bytes lib env ctx svc b w)))
               \<longrightarrow> Key input = Some key) \<and>
            (Contains (Address mailFrom) (ValidFFISEmail env) \<longrightarrow>
               (\<exists>input res. PutObjectCall input res
                  \<in> set (snd (fst (processEmail lib env ctx svc \<lparr>unread = b, failure = None, seeker = sk\<rparr> w)))) \<and>
               (\<exists>input res. PutObjectCall input res
                  \<in> set (snd (fst (processEmail_bytes lib env ctx svc b w))))) \<and>
            hd (fmt_d (Month t)) \<noteq> CHR ''0'' \<and> set (fmt_d (Month t)) \<subseteq> set ''0123456789'' \<and>
            int (decimal_val (fmt_d (Month t))) = Month t \<and>
            hd (fmt_d (Day t)) \<noteq> CHR ''0'' \<and> set (fmt_d (Day t)) \<subseteq> set ''0123456789'' \<and>
            int (decimal_val (fmt_d (Day t))) = Day t \<and>
            (Year t = 2023 \<and> Month t = 4 \<and> Day t = 24 \<longrightarrow> key = ''sources/2023/4/24/ffis/raw.eml'')"
proof -
  let ?key = "''sources/'' @ fmt_d (Year t) @ ''/'' @ fmt_d (Month t) @ ''/'' @ fmt_d (Day t)
                @ ''/ffis/raw.eml''"
  let ?r = "\<lparr>unread = b, failure = None, seeker = sk\<rparr>"
  have key: "s3ObjectKey_of t = ?key"
    by (simp add: s3ObjectKey_of_def)
  have hdr: "processHeader lib (Header email) = Inr (Address mailFrom, ?key)"
    using assms(2,3) by (simp add: processHeader_def key)
  have stream: "Key input = Some ?key \<and> Contains (Address mailFrom) (ValidFFISEmail env)"
    if "PutObjectCall input res \<in> set (snd (fst (processEmail lib env ctx svc ?r w)))"
    for input res
  proof (cases "Contains (Address mailFrom) (ValidFFISEmail env)")
    case True
    with that show ?thesis
      using processEmail_pass [of ?r lib email "Address mailFrom" ?key env ctx svc w] assms(1) hdr
      by (auto simp: Let_def split: option.splits)
  next
    case False
    with that show ?thesis
      using processEmail_reject [of ?r lib email "Address mailFrom" ?key env ctx svc w] assms(1) hdr
      by simp
  qed
  have bytes: "Key input = Some ?key"
    if "PutObjectCall input res \<in> set (snd (fst (processEmail_bytes lib env ctx svc b w)))"
    for input res
  proof (cases "Contains (Address mailFrom) (ValidFFISEmail env)")
    case True
    with that show ?thesis
      using processEmail_bytes_pass [OF assms(1,2) True assms(3), of ctx svc w] key
      by (auto simp: Let_def split: option.splits)
  next
    case False
    with that show ?thesis
      using processEmail_bytes_reject [OF assms(1,2) False, of ctx svc w] by simp
  qed
  have issued: "(\<exists>input res. PutObjectCall input res
                  \<in> set (snd (fst (processEmail lib env ctx svc ?r w)))) \<and>
               (\<exists>input res. PutObjectCall input res
                  \<in> set (snd (fst (processEmail_bytes lib env ctx svc b w))))"
    if c: "Contains (Address mailFrom) (ValidFFISEmail env)"
  proof
    show "\<exists>input res. PutObjectCall input res \<in> set (snd (fst (processEmail lib env ctx svc ?r w)))"
      using processEmail_pass [of ?r lib email "Address mailFrom" ?key env ctx svc w] assms(1) hdr c
      by (auto simp: Let_def split: option.splits)
    show "\<exists>input res. PutObjectCall input res \<in> set (snd (fst (processEmail_bytes lib env ctx svc b w)))"
      using processEmail_bytes_pass [OF assms(1,2) c assms(3), of ctx svc w]
      by (auto simp: Let_def split: option.splits)
  qed
  have particular: "?key = ''sources/2023/4/24/ffis/raw.eml''"
    if "Year t = 2023 \<and> Month t = 4 \<and> Day t = 24"
    using that by (simp add: fmt_d_def digits.simps)
  show ?thesis
    unfolding Let_def
    using hdr stream bytes issued particular fmt_d_pos [OF assms(4)] fmt_d_pos [OF assms(5)]
    by blast
qed

theorem destination_key_unpadded_witness:
  "ReadMessage test_mail RECEIVED_EMAIL_TEMPLATE = Inr RECEIVED_EMAIL_parsed
   \<and> ParseAddress test_mail (Get (Header RECEIVED_EMAIL_parsed) ''From'')
       = Inr \<lparr>Name = ''FFIS'', Address = ''fake@ffis.org''\<rparr>
   \<and> ParseDate test_mail (Get (Header RECEIVED_EMAIL_parsed) ''Date'')
       = Inr \<lparr>Year = 2023, Month = 4, Day = 24\<rparr>
   \<and> (0::int) < 4 \<and> (0::int) < 24
   \<and> Contains ''fake@ffis.org'' (ValidFFISEmail test_env)
   \<and> processHeader test_mail (Header RECEIVED_EMAIL_parsed)
       = Inr (''fake@ffis.org'', ''sources/2023/4/24/ffis/raw.eml'')
   \<and> (\<exists>input res. PutObjectCall input res
          \<in> set (snd (fst (processEmail test_mail test_env Background s3mem
                \<lparr>unread = RECEIVED_EMAIL_TEMPLATE, failure = None, seeker = True\<rparr> Map.empty)))
          \<and> Key input = Some ''sources/2023/4/24/ffis/raw.eml'')"
proof -
  let ?t = "\<lparr>Year = 2023, Month = 4, Day = 24\<rparr>"
  have m: "0 < Month ?t" and d: "0 < Day ?t"
    by simp_all
  have k: "''sources/'' @ fmt_d (Year ?t) @ ''/'' @ fmt_d (Month ?t) @ ''/'' @ fmt_d (Day ?t)
             @ ''/ffis/raw.eml'' = ''sources/2023/4/24/ffis/raw.eml''"
    by (simp add: fmt_d_def digits.simps)
  from destination_key_unpadded [OF test_mail_template m d,
      where env = test_env and ctx = Background and svc = s3mem and sk = True and w = Map.empty]
  show ?thesis
    unfolding Let_def k using test_mail_template test_Contains(1) by auto
qed

text \<open>
  C2. For a record whose sender validation and header parsing succeed, processEmail is
  to write the bytes that were read from the fetched message. The revision in
  unnamed/part_000 does: its put carries a reader over the bytes. The revision in
  handler.go reads the reader to its end and then hands that same reader to the
  upload, so the put's body has nothing left to yield: on the message of
  handler_test.go, read from a bytes.Reader, the object arrives empty at
  sources/2023/4/24/ffis/raw.eml, where the other revision stores the message. (With
  the body of a fetched object, which cannot seek, the client refuses the put; the
  bytes are written in neither case.)
\<close>

theorem processEmail_uploads_exhausted_reader:
  "processEmail test_mail test_env Background s3mem (NewReader RECEIVED_EMAIL_TEMPLATE) Map.empty =
     ((None,
       [PutObjectCall \<lparr>Bucket = Some ''test-source-data-bucket'',
                       Key = Some ''sources/2023/4/24/ffis/raw.eml'',
                       Body = \<lparr>unread = [], failure = None, seeker = True\<rparr>,
                       ServerSideEncryption = ''AES256''\<rparr> None,
        Metric ''email.moved'' 1]),
      [(''test-source-data-bucket'', ''sources/2023/4/24/ffis/raw.eml'') \<mapsto> []])
   \<and> processEmail_bytes test_mail test_env Background s3mem RECEIVED_EMAIL_TEMPLATE Map.empty =
     ((None,
       [PutObjectCall \<lparr>Bucket = Some ''test-source-data-bucket'',
                       Key = Some ''sources/2023/4/24/ffis/raw.eml'',
                       Body = \<lparr>unread = RECEIVED_EMAIL_TEMPLATE, failure = None, seeker = True\<rparr>,
                       ServerSideEncryption = ''AES256''\<rparr> None,
        Metric ''email.moved'' 1]),
      [(''test-source-data-bucket'', ''sources/2023/4/24/ffis/raw.eml'') \<mapsto> RECEIVED_EMAIL_TEMPLATE])
   \<and> RECEIVED_EMAIL_TEMPLATE \<noteq> []"
proof -
  have "RECEIVED_EMAIL_TEMPLATE \<noteq> []"
    by (simp add: RECEIVED_EMAIL_TEMPLATE_def)
  with test_processEmail_template test_processEmail_bytes_template show ?thesis
    by blast
qed

text \<open>
  C4, as amended. For every record that reaches the sender validation with a parsed
  address (in handler.go once processHeader has returned the address and the key, so
  once the From and the Date header have both parsed; in unnamed/part_000 once
  ParseAddress has succeeded), the record fails with the error "Origin email address
  does not match FFIS address" (wrapping "Invalid email address") and without any
  storage call exactly when the allow-listed string does not occur anywhere inside
  the address: containment as a substring, not equality.
\<close>

theorem sender_validation_is_substring_containment:
  assumes "ReadMessage lib b = Inr email"
  shows "(\<forall>address key.
            processHeader lib (Header email) = Inr (address, key) \<longrightarrow>
              (fst (processEmail lib env ctx svc \<lparr>unread = b, failure = None, seeker = sk\<rparr> w) =
                 (Some (Wrapped ''Origin email address does not match FFIS address''
                          (New ''Invalid email address'')), [])
               \<longleftrightarrow> \<not> (\<exists>ps ss. address = ps @ ValidFFISEmail env @ ss)))
       \<and> (\<forall>mailFrom.
            ParseAddress lib (Get (Header email) ''From'') = Inr mailFrom \<longrightarrow>
              (fst (processEmail_bytes lib env ctx svc b w) =
                 (Some (Wrapped ''Origin email address does not match FFIS address''
                          (New ''Invalid email address'')), [])
               \<longleftrightarrow> \<not> (\<exists>ps ss. Address mailFrom = ps @ ValidFFISEmail env @ ss)))"
proof (intro conjI allI impI)
  fix address key
  assume h: "processHeader lib (Header email) = Inr (address, key)"
  let ?r = "\<lparr>unread = b, failure = None, seeker = sk\<rparr>"
  show "fst (processEmail lib env ctx svc ?r w) =
          (Some (Wrapped ''Origin email address does not match FFIS address''
                   (New ''Invalid email address'')), [])
        \<longleftrightarrow> \<not> (\<exists>ps ss. address = ps @ ValidFFISEmail env @ ss)"
  proof (cases "Contains address (ValidFFISEmail env)")
    case True
    then show ?thesis
      using processEmail_upload_not_rejection [of ?r lib email address key env ctx svc w] assms h
      by (simp add: Contains_iff)
  next
    case False
    then show ?thesis
      using processEmail_reject [of ?r lib email address key env ctx svc w] assms h
      by (simp add: Contains_iff)
  qed
next
  fix mailFrom
  assume p: "ParseAddress lib (Get (Header email) ''From'') = Inr mailFrom"
  show "fst (processEmail_bytes lib env ctx svc b w) =
          (Some (Wrapped ''Origin email address does not match FFIS address''
                   (New ''Invalid email address'')), [])
        \<longleftrightarrow> \<not> (\<exists>ps ss. Address mailFrom = ps @ ValidFFISEmail env @ ss)"
  proof (cases "Contains (Address mailFrom) (ValidFFISEmail env)")
    case True
    then show ?thesis
      using processEmail_bytes_not_rejection [OF assms p True, of ctx svc w]
      by (simp add: Contains_iff)
  next
    case False
    then show ?thesis
      using processEmail_bytes_reject [OF assms p False, of ctx svc w]
      by (simp add: Contains_iff)
  qed
qed

theorem sender_validation_is_substring_containment_witness:
  "ReadMessage test_mail RECEIVED_EMAIL_TEMPLATE = Inr RECEIVED_EMAIL_parsed
   \<and> processHeader test_mail (Header RECEIVED_EMAIL_parsed)
       = Inr (''fake@ffis.org'', ''sources/2023/4/24/ffis/raw.eml'')
   \<and> ParseAddress test_mail (Get (Header RECEIVED_EMAIL_parsed) ''From'')
       = Inr \<lparr>Name = ''FFIS'', Address = ''fake@ffis.org''\<rparr>
   \<and> ''fake@ffis.org'' = ''fake@'' @ ''ffis'' @ ''.org''
   \<and> fst (processEmail test_mail \<lparr>ValidFFISEmail = ''ffis'', SourceDataBucket = ''bucket''\<rparr>
            Background s3mem \<lparr>unread = RECEIVED_EMAIL_TEMPLATE, failure = None, seeker = True\<rparr> Map.empty)
       \<noteq> (Some (Wrapped ''Origin email address does not match FFIS address''
                   (New ''Invalid email address'')), [])
   \<and> fst (processEmail_bytes test_mail \<lparr>ValidFFISEmail = ''ffis'', SourceDataBucket = ''bucket''\<rparr>
            Background s3mem RECEIVED_EMAIL_TEMPLATE Map.empty)
       \<noteq> (Some (Wrapped ''Origin email address does not match FFIS address''
                   (New ''Invalid email address'')), [])"
proof -
  let ?env = "\<lparr>ValidFFISEmail = ''ffis'', SourceDataBucket = ''bucket''\<rparr>"
  have sp: "''fake@ffis.org'' = ''fake@'' @ ValidFFISEmail ?env @ ''.org''"
    by simp
  then have ex: "\<exists>ps ss. ''fake@ffis.org'' = ps @ ValidFFISEmail ?env @ ss"
    by blast
  have ex': "\<exists>ps ss. Address \<lparr>Name = ''FFIS'', Address = ''fake@ffis.org''\<rparr> = ps @ ValidFFISEmail ?env @ ss"
    using ex by simp
  note inst = sender_validation_is_substring_containment
    [OF test_mail_template(1),
      where env = ?env and ctx = Background and svc = s3mem and sk = True and w = Map.empty]
  from inst test_processHeader_template ex
  have a: "fst (processEmail test_mail ?env Background s3mem
              \<lparr>unread = RECEIVED_EMAIL_TEMPLATE, failure = None, seeker = True\<rparr> Map.empty)
       \<noteq> (Some (Wrapped ''Origin email address does not match FFIS address''
                   (New ''Invalid email address'')), [])"
    by blast
  from inst test_mail_template(2) ex'
  have b: "fst (processEmail_bytes test_mail ?env Background s3mem RECEIVED_EMAIL_TEMPLATE Map.empty)
       \<noteq> (Some (Wrapped ''Origin email address does not match FFIS address''
                   (New ''Invalid email address'')), [])"
    by blast
  show ?thesis
    using a b test_mail_template test_processHeader_template by simp
qed

text \<open>
  C4, as stated for every successfully parsed sender address, fails in handler.go: a
  message whose From header parses to an address without the allow-listed string and
  whose Date header is malformed does not fail with the validation error but with
  "Error extracting data from email header", because processHeader parses the date
  before the sender is checked.
\<close>

theorem disallowed_sender_bad_date_reports_date_error:
  "ReadMessage test_mail EMAIL_BAD_DATE = Inr EMAIL_BAD_DATE_parsed
   \<and> ParseAddress test_mail (Get (Header EMAIL_BAD_DATE_parsed) ''From'')
       = Inr \<lparr>Name = ''Somebody'', Address = ''intruder@example.com''\<rparr>
   \<and> \<not> Contains ''intruder@example.com'' (ValidFFISEmail test_env)
   \<and> fst (processEmail test_mail test_env Background s3mem
            \<lparr>unread = EMAIL_BAD_DATE, failure = None, seeker = False\<rparr> Map.empty)
       = (Some (Wrapped ''Error extracting data from email header''
                  (New ''mail: header could not be parsed'')), [])
   \<and> fst (processEmail test_mail test_env Background s3mem
            \<lparr>unread = EMAIL_BAD_DATE, failure = None, seeker = False\<rparr> Map.empty)
       \<noteq> (Some (Wrapped ''Origin email address does not match FFIS address''
                   (New ''Invalid email address'')), [])"
proof -
  have h: "processHeader test_mail (Header EMAIL_BAD_DATE_parsed)
             = Inl (New ''mail: header could not be parsed'')"
    by (simp add: processHeader_def test_mail_bad_date)
  have 1: "fst (processEmail test_mail test_env Background s3mem
            \<lparr>unread = EMAIL_BAD_DATE, failure = None, seeker = False\<rparr> Map.empty)
       = (Some (Wrapped ''Error extracting data from email header''
                  (New ''mail: header could not be parsed'')), [])"
    by (simp add: processEmail_def ReadAll_def test_mail_bad_date h Errorf_def)
  show ?thesis
    using 1 test_mail_bad_date(1,2) test_Contains(2) by simp
qed

text \<open>
  C5. In the URL pipeline a message without a plaintext part fails with
  ErrNoPlaintext; a plaintext with no match of the pattern fails with
  ErrNoMatchesFound; one with two or more matches fails with ErrMultipleFound; in
  these three cases nothing is sent. One with exactly one match sends that match as
  the body of the queue message, and the record succeeds exactly when the queue
  accepts it.
\<close>

theorem url_extraction_policy:
  "(TextPlain msg = None \<longrightarrow>
      enqueueURL findAll pattern send queue msg q = ((Some ErrNoPlaintext, []), q)) \<and>
   (\<forall>text. TextPlain msg = Some text \<and> findAll pattern text = [] \<longrightarrow>
      enqueueURL findAll pattern send queue msg q = ((Some ErrNoMatchesFound, []), q)) \<and>
   (\<forall>text. TextPlain msg = Some text \<and> 2 \<le> length (findAll pattern text) \<longrightarrow>
      enqueueURL findAll pattern send queue msg q = ((Some ErrMultipleFound, []), q)) \<and>
   (\<forall>text url. TextPlain msg = Some text \<and> findAll pattern text = [url] \<longrightarrow>
      snd (fst (enqueueURL findAll pattern send queue msg q)) = [url] \<and>
      snd (enqueueURL findAll pattern send queue msg q) = snd (send queue url q) \<and>
      (fst (fst (enqueueURL findAll pattern send queue msg q)) = None
         \<longleftrightarrow> (\<exists>messageId. fst (send queue url q) = Inr messageId)))"
proof -
  have multi: "(case xs of [] \<Rightarrow> a | [url] \<Rightarrow> f url | _ \<Rightarrow> c) = c" if "2 \<le> length xs"
    for xs :: "string list" and a c :: 'z and f
    using that by (cases xs; cases "tl xs") auto
  show ?thesis
    by (auto simp: enqueueURL_def extractURL_def multi split: prod.splits sum.splits)
qed

theorem url_extraction_policy_witness:
  "TextPlain \<lparr>Headers = Map.empty, TextPlain = None, TextHTML = Some ''<p>hello</p>''\<rparr> = None
   \<and> enqueueURL test_findAll test_URLPattern MockSQS ''queue''
        \<lparr>Headers = Map.empty, TextPlain = None, TextHTML = Some ''<p>hello</p>''\<rparr> []
       = ((Some ErrNoPlaintext, []), [])
   \<and> test_findAll test_URLPattern ''no link here'' = []
   \<and> enqueueURL test_findAll test_URLPattern MockSQS ''queue''
        \<lparr>Headers = Map.empty, TextPlain = Some ''no link here'', TextHTML = None\<rparr> []
       = ((Some ErrNoMatchesFound, []), [])
   \<and> 2 \<le> length (test_findAll test_URLPattern
        ''https://mcusercontent.com/1/a.xlsx\<newline>https://mcusercontent.com/2/b.xlsx\<newline>'')
   \<and> enqueueURL test_findAll test_URLPattern MockSQS ''queue''
        \<lparr>Headers = Map.empty,
         TextPlain = Some ''https://mcusercontent.com/1/a.xlsx\<newline>https://mcusercontent.com/2/b.xlsx\<newline>'',
         TextHTML = None\<rparr> []
       = ((Some ErrMultipleFound, []), [])
   \<and> test_findAll test_URLPattern
        ''Download: https://mcusercontent.com/123456/files/file-01.xlsx\<newline>''
       = [''https://mcusercontent.com/123456/files/file-01.xlsx'']
   \<and> enqueueURL test_findAll test_URLPattern MockSQS ''queue''
        \<lparr>Headers = Map.empty,
         TextPlain = Some ''Download: https://mcusercontent.com/123456/files/file-01.xlsx\<newline>'',
         TextHTML = None\<rparr> []
       = ((None, [''https://mcusercontent.com/123456/files/file-01.xlsx'']),
          [''https://mcusercontent.com/123456/files/file-01.xlsx''])"
proof -
  let ?html = "\<lparr>Headers = Map.empty, TextPlain = None, TextHTML = Some ''<p>hello</p>''\<rparr>"
  let ?none = "\<lparr>Headers = Map.empty, TextPlain = Some ''no link here'', TextHTML = None\<rparr>"
  let ?two = "\<lparr>Headers = Map.empty,
         TextPlain = Some ''https://mcusercontent.com/1/a.xlsx\<newline>https://mcusercontent.com/2/b.xlsx\<newline>'',
         TextHTML = None\<rparr>"
  let ?one = "\<lparr>Headers = Map.empty,
         TextPlain = Some ''Download: https://mcusercontent.com/123456/files/file-01.xlsx\<newline>'',
         TextHTML = None\<rparr>"
  have f0: "test_findAll test_URLPattern ''no link here'' = []"
    by (simp add: test_findAll_def)
  have f2: "test_findAll test_URLPattern
        ''https://mcusercontent.com/1/a.xlsx\<newline>https://mcusercontent.com/2/b.xlsx\<newline>''
      = [''https://mcusercontent.com/1/a.xlsx'', ''https://mcusercontent.com/2/b.xlsx'']"
    by (simp add: test_findAll_def)
  have f1: "test_findAll test_URLPattern
        ''Download: https://mcusercontent.com/123456/files/file-01.xlsx\<newline>''
       = [''https://mcusercontent.com/123456/files/file-01.xlsx'']"
    by (simp add: test_findAll_def)
  have a: "enqueueURL test_findAll test_URLPattern MockSQS ''queue'' ?html [] = ((Some ErrNoPlaintext, []), [])"
    using url_extraction_policy [of ?html test_findAll test_URLPattern MockSQS "''queue''" "[]"]
    by simp
  have b: "enqueueURL test_findAll test_URLPattern MockSQS ''queue'' ?none [] = ((Some ErrNoMatchesFound, []), [])"
    using url_extraction_policy [of ?none test_findAll test_URLPattern MockSQS "''queue''" "[]"] f0
    by simp
  have c: "enqueueURL test_findAll test_URLPattern MockSQS ''queue'' ?two [] = ((Some ErrMultipleFound, []), [])"
    using url_extraction_policy [of ?two test_findAll test_URLPattern MockSQS "''queue''" "[]"] f2
    by simp
  have d: "enqueueURL test_findAll test_URLPattern MockSQS ''queue'' ?one []
       = ((None, [''https://mcusercontent.com/123456/files/file-01.xlsx'']),
          [''https://mcusercontent.com/123456/files/file-01.xlsx''])"
    using url_extraction_policy [of ?one test_findAll test_URLPattern MockSQS "''queue''" "[]"] f1
    by (simp add: MockSQS_def prod_eq_iff)
  show ?thesis
    using a b c d f0 f1 f2 by simp
qed

text \<open>
  C9, as amended. On every input, the two revisions of processEmail reach the upload
  on the same inputs; where they do not reach it, both fail, issue no storage call
  and leave the service untouched, and the error at the end of the chain is the same
  in both unless the sender is disallowed and the Date header is malformed as well;
  where they reach it, their puts name the same bucket, the same key and the same
  encryption.
\<close>

theorem processEmail_revisions_agree_before_upload:
  "let R1 = processEmail lib env ctx svc \<lparr>unread = b, failure = None, seeker = sk\<rparr> w;
       R2 = processEmail_bytes lib env ctx svc b w;
       err1 = fst (fst R1); evs1 = snd (fst R1);
       err2 = fst (fst R2); evs2 = snd (fst R2)
   in (filter is_put evs1 = [] \<longleftrightarrow> filter is_put evs2 = []) \<and>
      (filter is_put evs1 = [] \<longrightarrow>
         err1 \<noteq> None \<and> err2 \<noteq> None \<and> evs1 = [] \<and> evs2 = [] \<and> snd R1 = w \<and> snd R2 = w) \<and>
      (filter is_put evs1 = [] \<and>
       \<not> (\<exists>email a e. ReadMessage lib b = Inr email \<and>
            ParseAddress lib (Get (Header email) ''From'') = Inr a \<and>
            \<not> Contains (Address a) (ValidFFISEmail env) \<and>
            ParseDate lib (Get (Header email) ''Date'') = Inl e) \<longrightarrow>
         map_option cause err1 = map_option cause err2) \<and>
      (\<forall>i1 x1 i2 x2.
         PutObjectCall i1 x1 \<in> set evs1 \<and> PutObjectCall i2 x2 \<in> set evs2 \<longrightarrow>
           Bucket i1 = Bucket i2 \<and> Key i1 = Key i2 \<and>
           ServerSideEncryption i1 = ServerSideEncryption i2)"
  unfolding Let_def
  using revisions_same_upload_decision [of lib env ctx svc b sk w]
    processEmail_no_put [of lib env ctx svc "\<lparr>unread = b, failure = None, seeker = sk\<rparr>" w]
    processEmail_bytes_no_put [of lib env ctx svc b w]
    revisions_same_cause [of lib env ctx svc b sk w]
    revisions_same_destination [of _ _ lib env ctx svc b sk w]
  by blast

theorem processEmail_revisions_agree_before_upload_witness:
  "PutObjectCall \<lparr>Bucket = Some ''test-source-data-bucket'',
                  Key = Some ''sources/2023/4/24/ffis/raw.eml'',
                  Body = \<lparr>unread = [], failure = None, seeker = True\<rparr>,
                  ServerSideEncryption = ''AES256''\<rparr> None
     \<in> set (snd (fst (processEmail test_mail test_env Background s3mem
                \<lparr>unread = RECEIVED_EMAIL_TEMPLATE, failure = None, seeker = True\<rparr> Map.empty)))
   \<and> PutObjectCall \<lparr>Bucket = Some ''test-source-data-bucket'',
                  Key = Some ''sources/2023/4/24/ffis/raw.eml'',
                  Body = \<lparr>unread = RECEIVED_EMAIL_TEMPLATE, failure = None, seeker = True\<rparr>,
                  ServerSideEncryption = ''AES256''\<rparr> None
     \<in> set (snd (fst (processEmail_bytes test_mail test_env Background s3mem
                RECEIVED_EMAIL_TEMPLATE Map.empty)))
   \<and> filter is_put (snd (fst (processEmail test_mail test_env Background s3mem
                \<lparr>unread = EMAIL_DISPLAY_NAME, failure = None, seeker = True\<rparr> Map.empty))) = []
   \<and> \<not> (\<exists>email a e. ReadMessage test_mail EMAIL_DISPLAY_NAME = Inr email \<and>
            ParseAddress test_mail (Get (Header email) ''From'') = Inr a \<and>
            \<not> Contains (Address a) (ValidFFISEmail test_env) \<and>
            ParseDate test_mail (Get (Header email) ''Date'') = Inl e)
   \<and> filter is_put (snd (fst (processEmail_bytes test_mail test_env Background s3mem
                EMAIL_DISPLAY_NAME Map.empty))) = []
   \<and> map_option cause (fst (fst (processEmail test_mail test_env Background s3mem
                \<lparr>unread = EMAIL_DISPLAY_NAME, failure = None, seeker = True\<rparr> Map.empty)))
     = map_option cause (fst (fst (processEmail_bytes test_mail test_env Background s3mem
                EMAIL_DISPLAY_NAME Map.empty)))"
proof -
  have p1: "PutObjectCall \<lparr>Bucket = Some ''test-source-data-bucket'',
                  Key = Some ''sources/2023/4/24/ffis/raw.eml'',
                  Body = \<lparr>unread = [], failure = None, seeker = True\<rparr>,
                  ServerSideEncryption = ''AES256''\<rparr> None
     \<in> set (snd (fst (processEmail test_mail test_env Background s3mem
                \<lparr>unread = RECEIVED_EMAIL_TEMPLATE, failure = None, seeker = True\<rparr> Map.empty)))"
    using test_processEmail_template by (simp add: NewReader_def)
  have p2: "PutObjectCall \<lparr>Bucket = Some ''test-source-data-bucket'',
                  Key = Some ''sources/2023/4/24/ffis/raw.eml'',
                  Body = \<lparr>unread = RECEIVED_EMAIL_TEMPLATE, failure = None, seeker = True\<rparr>,
                  ServerSideEncryption = ''AES256''\<rparr> None
     \<in> set (snd (fst (processEmail_bytes test_mail test_env Background s3mem
                RECEIVED_EMAIL_TEMPLATE Map.empty)))"
    using test_processEmail_bytes_template by simp
  have n1: "filter is_put (snd (fst (processEmail test_mail test_env Background s3mem
                \<lparr>unread = EMAIL_DISPLAY_NAME, failure = None, seeker = True\<rparr> Map.empty))) = []"
    by (simp add: test_processEmail_display_name)
  have n2: "\<not> (\<exists>email a e. ReadMessage test_mail EMAIL_DISPLAY_NAME = Inr email \<and>
            ParseAddress test_mail (Get (Header email) ''From'') = Inr a \<and>
            \<not> Contains (Address a) (ValidFFISEmail test_env) \<and>
            ParseDate test_mail (Get (Header email) ''Date'') = Inl e)"
    by (simp add: test_mail_display_name)
  note inst = processEmail_revisions_agree_before_upload
    [where lib = test_mail and env = test_env and ctx = Background and svc = s3mem
       and b = EMAIL_DISPLAY_NAME and w = Map.empty]
  from inst n1 n2
  have "filter is_put (snd (fst (processEmail_bytes test_mail test_env Background s3mem
                EMAIL_DISPLAY_NAME Map.empty))) = []"
    and "map_option cause (fst (fst (processEmail test_mail test_env Background s3mem
                \<lparr>unread = EMAIL_DISPLAY_NAME, failure = None, seeker = True\<rparr> Map.empty)))
     = map_option cause (fst (fst (processEmail_bytes test_mail test_env Background s3mem
                EMAIL_DISPLAY_NAME Map.empty)))"
    unfolding Let_def by blast+
  with p1 p2 n1 n2 show ?thesis by blast
qed

text \<open>
  C9, as stated, fails: on a message from a disallowed sender with a malformed Date
  header, handler.go reports the date error from processHeader (it parses the date
  before it validates the sender), unnamed/part_000 the invalid sender (it validates
  first).
\<close>

theorem processEmail_revisions_differ:
  "fst (fst (processEmail test_mail test_env Background s3mem (NewReader EMAIL_BAD_DATE) Map.empty))
     = Some (Wrapped ''Error extracting data from email header''
               (New ''mail: header could not be parsed''))
   \<and> fst (fst (processEmail_bytes test_mail test_env Background s3mem EMAIL_BAD_DATE Map.empty))
     = Some (Wrapped ''Origin email address does not match FFIS address''
               (New ''Invalid email address''))
   \<and> cause (Wrapped ''Error extracting data from email header''
               (New ''mail: header could not be parsed''))
     \<noteq> cause (Wrapped ''Origin email address does not match FFIS address''
               (New ''Invalid email address''))"
proof -
  have h: "processHeader test_mail (Header EMAIL_BAD_DATE_parsed)
             = Inl (New ''mail: header could not be parsed'')"
    by (simp add: processHeader_def test_mail_bad_date)
  have 1: "fst (fst (processEmail test_mail test_env Background s3mem (NewReader EMAIL_BAD_DATE) Map.empty))
     = Some (Wrapped ''Error extracting data from email header''
               (New ''mail: header could not be parsed''))"
    by (simp add: processEmail_def ReadAll_def NewReader_def test_mail_bad_date h Errorf_def)
  have n: "\<not> Contains (Address \<lparr>Name = ''Somebody'', Address = ''intruder@example.com''\<rparr>)
             (ValidFFISEmail test_env)"
    using test_Contains(2) by simp
  have 2: "fst (fst (processEmail_bytes test_mail test_env Background s3mem EMAIL_BAD_DATE Map.empty))
     = Some (Wrapped ''Origin email address does not match FFIS address''
               (New ''Invalid email address''))"
    by (simp add: processEmail_bytes_reject [OF test_mail_bad_date(1,2) n])
  from 1 2 show ?thesis by simp
qed





end
